theory Spec2Isabelle
  imports Main "HOL-Library.Word" "HOL-Library.Sublist"
begin

section \<open>CRI messages\<close>

text \<open>
  The request messages of the CRI runtime API, restricted to the fields that
  \<^verbatim>\<open>sandbox_run.go\<close> reads. Every message is reached through a pointer in Go, so a
  message that may be absent is an \<open>option\<close>, and the generated nil-safe getters
  (\<^verbatim>\<open>GetConfig\<close>, \<^verbatim>\<open>GetLinux\<close>, ...) return the zero value on \<open>None\<close>.
\<close>

record PodSandboxMetadata =
  Name :: string
  Uid :: string
  Namespace :: string
  Attempt :: "32 word"

record NamespaceOption =
  HostNetwork :: bool
  HostPid :: bool
  HostIpc :: bool

record LinuxSandboxSecurityContext =
  NamespaceOptions :: "NamespaceOption option"

record LinuxPodSandboxConfig =
  CgroupParent :: string
  SecurityContext :: "LinuxSandboxSecurityContext option"

record PodSandboxConfig =
  Metadata :: "PodSandboxMetadata option"
  Hostname :: string
  LogDirectory :: string
  Labels :: "string \<rightharpoonup> string"
  Annotations :: "string \<rightharpoonup> string"
  Linux :: "LinuxPodSandboxConfig option"

record RunPodSandboxRequest =
  Config :: "PodSandboxConfig option"

record RunPodSandboxResponse =
  PodSandboxId :: string

definition GetConfig :: "RunPodSandboxRequest option \<Rightarrow> PodSandboxConfig option" where
  "GetConfig r = (case r of None \<Rightarrow> None | Some m \<Rightarrow> Config m)"

definition GetMetadata :: "PodSandboxConfig option \<Rightarrow> PodSandboxMetadata option" where
  "GetMetadata c = (case c of None \<Rightarrow> None | Some m \<Rightarrow> Metadata m)"

definition GetHostname :: "PodSandboxConfig option \<Rightarrow> string" where
  "GetHostname c = (case c of None \<Rightarrow> [] | Some m \<Rightarrow> Hostname m)"

definition GetLinux :: "PodSandboxConfig option \<Rightarrow> LinuxPodSandboxConfig option" where
  "GetLinux c = (case c of None \<Rightarrow> None | Some m \<Rightarrow> Linux m)"

definition GetCgroupParent :: "LinuxPodSandboxConfig option \<Rightarrow> string" where
  "GetCgroupParent l = (case l of None \<Rightarrow> [] | Some m \<Rightarrow> CgroupParent m)"

definition GetSecurityContext ::
  "LinuxPodSandboxConfig option \<Rightarrow> LinuxSandboxSecurityContext option" where
  "GetSecurityContext l = (case l of None \<Rightarrow> None | Some m \<Rightarrow> SecurityContext m)"

definition GetNamespaceOptions ::
  "LinuxSandboxSecurityContext option \<Rightarrow> NamespaceOption option" where
  "GetNamespaceOptions s = (case s of None \<Rightarrow> None | Some m \<Rightarrow> NamespaceOptions m)"

definition GetHostNetwork :: "NamespaceOption option \<Rightarrow> bool" where
  "GetHostNetwork n = (case n of None \<Rightarrow> False | Some m \<Rightarrow> HostNetwork m)"

definition GetHostPid :: "NamespaceOption option \<Rightarrow> bool" where
  "GetHostPid n = (case n of None \<Rightarrow> False | Some m \<Rightarrow> HostPid m)"

definition GetHostIpc :: "NamespaceOption option \<Rightarrow> bool" where
  "GetHostIpc n = (case n of None \<Rightarrow> False | Some m \<Rightarrow> HostIpc m)"

definition GetPodSandboxId :: "RunPodSandboxResponse option \<Rightarrow> string" where
  "GetPodSandboxId r = (case r of None \<Rightarrow> [] | Some m \<Rightarrow> PodSandboxId m)"

section \<open>The runtime specification and its generator\<close>

text \<open>
  The OCI runtime specification, restricted to the fields the sandbox code sets or the
  tests read: root, process arguments, hostname, and the Linux block with its cgroups
  path and namespace list. The cgroups path is a Go string; the empty string is the
  unset path.
\<close>

datatype LinuxNamespaceType =
  PIDNamespace | NetworkNamespace | MountNamespace | IPCNamespace | UTSNamespace
  | UserNamespace | CgroupNamespace

record LinuxNamespace =
  ns_Type :: LinuxNamespaceType
  ns_Path :: string

record Root =
  root_Path :: string
  root_Readonly :: bool

record Process =
  proc_Args :: "string list"

record LinuxSpec =
  CgroupsPath :: string
  Namespaces :: "LinuxNamespace list"

record Spec =
  spec_Root :: Root
  spec_Process :: Process
  spec_Hostname :: string
  spec_Linux :: "LinuxSpec option"

text \<open>
  Modelled from the spec: the external generator library (\<^verbatim>\<open>generate.New\<close> and its
  setters) is not part of the repository. The baseline enables the network, PID, IPC,
  UTS and mount namespaces and sets no cgroups path; root, process arguments and
  hostname are overwritten by the sandbox code before the spec is returned, so their
  baseline values are immaterial.
\<close>

definition generate_New :: Spec where
  "generate_New =
     \<lparr> spec_Root = \<lparr> root_Path = [], root_Readonly = False \<rparr>,
       spec_Process = \<lparr> proc_Args = [] \<rparr>,
       spec_Hostname = [],
       spec_Linux = Some \<lparr> CgroupsPath = [],
         Namespaces =
           [ \<lparr> ns_Type = PIDNamespace, ns_Path = [] \<rparr>,
             \<lparr> ns_Type = NetworkNamespace, ns_Path = [] \<rparr>,
             \<lparr> ns_Type = IPCNamespace, ns_Path = [] \<rparr>,
             \<lparr> ns_Type = UTSNamespace, ns_Path = [] \<rparr>,
             \<lparr> ns_Type = MountNamespace, ns_Path = [] \<rparr> ] \<rparr> \<rparr>"

definition SetRootPath :: "string \<Rightarrow> Spec \<Rightarrow> Spec" where
  "SetRootPath p g = g\<lparr> spec_Root := (spec_Root g)\<lparr> root_Path := p \<rparr> \<rparr>"

definition SetProcessArgs :: "string list \<Rightarrow> Spec \<Rightarrow> Spec" where
  "SetProcessArgs args g = g\<lparr> spec_Process := (spec_Process g)\<lparr> proc_Args := args \<rparr> \<rparr>"

definition SetRootReadonly :: "bool \<Rightarrow> Spec \<Rightarrow> Spec" where
  "SetRootReadonly b g = g\<lparr> spec_Root := (spec_Root g)\<lparr> root_Readonly := b \<rparr> \<rparr>"

definition SetHostname :: "string \<Rightarrow> Spec \<Rightarrow> Spec" where
  "SetHostname s g = g\<lparr> spec_Hostname := s \<rparr>"

definition initSpecLinux :: "Spec \<Rightarrow> LinuxSpec" where
  "initSpecLinux g =
     (case spec_Linux g of
        None \<Rightarrow> \<lparr> CgroupsPath = [], Namespaces = [] \<rparr>
      | Some l \<Rightarrow> l)"

definition SetLinuxCgroupsPath :: "string \<Rightarrow> Spec \<Rightarrow> Spec" where
  "SetLinuxCgroupsPath p g = g\<lparr> spec_Linux := Some ((initSpecLinux g)\<lparr> CgroupsPath := p \<rparr>) \<rparr>"

definition RemoveLinuxNamespace :: "LinuxNamespaceType \<Rightarrow> Spec \<Rightarrow> Spec" where
  "RemoveLinuxNamespace t g =
     (case spec_Linux g of
        None \<Rightarrow> g
      | Some l \<Rightarrow>
          g\<lparr> spec_Linux := Some (l\<lparr> Namespaces := filter (\<lambda>n. ns_Type n \<noteq> t) (Namespaces l) \<rparr>) \<rparr>)"

text \<open>
  The package-level helpers and constants of the server package that
  \<^verbatim>\<open>sandbox_run.go\<close> uses but whose file is not among the sources, and the version
  constant of the runtime-spec library. They are taken as parameters; every theorem
  below holds for all of them.
\<close>

record helpers =
  relativeRootfsPath :: string
  defaultRuntime :: string
  makeSandboxName :: "PodSandboxMetadata option \<Rightarrow> string"
  getCgroupsPath :: "string \<Rightarrow> string \<Rightarrow> string"
  getSandboxRootDir :: "string \<Rightarrow> string \<Rightarrow> string"
  getStreamingPipes :: "string \<Rightarrow> string \<times> string \<times> string"
  getNetworkNamespace :: "32 word \<Rightarrow> string"
  specVersion :: string

definition pauseCommand :: "string list" where
  "pauseCommand = [''sh'', ''-c'', ''while true; do sleep 1000000000; done'']"

text \<open>
  \<^verbatim>\<open>generateSandboxContainerSpec\<close>, statement by statement. The three calls of
  \<^verbatim>\<open>RemoveLinuxNamespace\<close> discard the returned error in the source.
\<close>

definition generateSandboxContainerSpec ::
  "helpers \<Rightarrow> string \<Rightarrow> PodSandboxConfig option \<Rightarrow> Spec" where
  "generateSandboxContainerSpec h ident config =
     (let g0 = generate_New;
          g1 = SetRootPath (relativeRootfsPath h) g0;
          g2 = SetProcessArgs pauseCommand g1;
          g3 = SetRootReadonly True g2;
          g4 = SetHostname (GetHostname config) g3;
          g5 = (if GetCgroupParent (GetLinux config) \<noteq> []
                then SetLinuxCgroupsPath
                       (getCgroupsPath h (GetCgroupParent (GetLinux config)) ident) g4
                else g4);
          nsOptions = GetNamespaceOptions (GetSecurityContext (GetLinux config));
          g6 = (if GetHostNetwork nsOptions then RemoveLinuxNamespace NetworkNamespace g5 else g5);
          g7 = (if GetHostPid nsOptions then RemoveLinuxNamespace PIDNamespace g6 else g6);
          g8 = (if GetHostIpc nsOptions then RemoveLinuxNamespace IPCNamespace g7 else g7)
      in g8)"

text \<open>Readers of a spec used in the statements below.\<close>

definition specNamespaces :: "Spec \<Rightarrow> LinuxNamespaceType set" where
  "specNamespaces s = (case spec_Linux s of None \<Rightarrow> {} | Some l \<Rightarrow> ns_Type ` set (Namespaces l))"

definition specCgroupsPath :: "Spec \<Rightarrow> string" where
  "specCgroupsPath s = (case spec_Linux s of None \<Rightarrow> [] | Some l \<Rightarrow> CgroupsPath l)"


definition nsOptionsOf :: "PodSandboxConfig option \<Rightarrow> NamespaceOption option" where
  "nsOptionsOf c = GetNamespaceOptions (GetSecurityContext (GetLinux c))"

section \<open>Collaborators of the orchestrator\<close>

text \<open>The error values the collaborators return; \<open>Failure\<close> is an error of the environment.\<close>

datatype cause = AlreadyExists | Invalid | NotFound | Ambiguous | Failure string

subsection \<open>Name registrar\<close>

text \<open>
  Modelled from the spec: the registrar package is not among the sources. A
  reservation fails when the name is mapped to any key, and establishes the mapping in
  both directions otherwise; releasing an absent name changes nothing.
\<close>

record Registrar =
  nameToKey :: "string \<rightharpoonup> string"
  keyToName :: "string \<rightharpoonup> string"

definition NewRegistrar :: Registrar where
  "NewRegistrar = \<lparr> nameToKey = Map.empty, keyToName = Map.empty \<rparr>"

definition Reserve :: "string \<Rightarrow> string \<Rightarrow> Registrar \<Rightarrow> cause + Registrar" where
  "Reserve name key r =
     (if nameToKey r name \<noteq> None then Inl AlreadyExists
      else Inr (r\<lparr> nameToKey := (nameToKey r)(name \<mapsto> key),
                   keyToName := (keyToName r)(key \<mapsto> name) \<rparr>))"

definition ReleaseByName :: "string \<Rightarrow> Registrar \<Rightarrow> Registrar" where
  "ReleaseByName name r =
     (case nameToKey r name of
        None \<Rightarrow> r
      | Some key \<Rightarrow> r\<lparr> nameToKey := (nameToKey r)(name := None),
                        keyToName := (keyToName r)(key := None) \<rparr>)"

subsection \<open>Identity index\<close>

text \<open>
  Modelled from the spec: the truncated-identity index is an external library. Adding
  fails on the empty identity and on one already present; deleting removes the identity
  if present and is a no-op otherwise (the source discards what \<^verbatim>\<open>Delete\<close> returns);
  a lookup by prefix succeeds when exactly one stored identity starts with it. The
  spec's further rejection of an addition that "collides as a prefix in an unintended
  way" names no condition and is left out.
\<close>

definition TruncIndex_Add :: "string \<Rightarrow> string list \<Rightarrow> cause + string list" where
  "TruncIndex_Add ident ix =
     (if ident = [] then Inl Invalid
      else if ident \<in> set ix then Inl AlreadyExists
      else Inr (ident # ix))"

definition TruncIndex_Delete :: "string \<Rightarrow> string list \<Rightarrow> string list" where
  "TruncIndex_Delete ident ix = removeAll ident ix"

definition TruncIndex_Get :: "string \<Rightarrow> string list \<Rightarrow> cause + string" where
  "TruncIndex_Get p ix =
     (case remdups (filter (prefix p) ix) of
        [] \<Rightarrow> Inl NotFound
      | [x] \<Rightarrow> Inr x
      | _ \<Rightarrow> Inl Ambiguous)"

subsection \<open>Requests, records, calls and the log\<close>

datatype rawSpec = Marshalled Spec

record AnySpec =
  TypeUrl :: string
  Value :: rawSpec

record Mount =
  mount_Type :: string
  mount_Source :: string
  mount_Options :: "string list"

record CreateRequest =
  cr_ID :: string
  cr_Spec :: AnySpec
  cr_Rootfs :: "Mount list"
  cr_Runtime :: string
  cr_Stdout :: string
  cr_Stderr :: string

record CreateResponse =
  Pid :: "32 word"

record SandboxMetadata =
  sm_ID :: string
  sm_Name :: string
  sm_Config :: "PodSandboxConfig option"
  sm_CreatedAt :: "64 word"
  sm_NetNS :: string

datatype oflag = O_RDONLY | O_CREAT | O_NONBLOCK

text \<open>
  A call on a collaborator that is reached through an interface (the OS capability, an
  opened pipe, the execution service, the metadata store) or on the JSON encoder. The
  world records every such call with what it returned, and decides through \<open>inject\<close>
  whether the environment makes it fail.
\<close>

datatype call =
    CallMkdirAll string nat
  | CallRemoveAll string
  | CallOpenFifo string "oflag list" nat
  | CallClose nat
  | CallMarshal Spec
  | CallCreate CreateRequest
  | CallStart string
  | CallDelete string
  | CallStoreCreate SandboxMetadata

datatype log_entry =
    Info_RunWithConfig "PodSandboxConfig option"
  | Info_Returns string
  | Info_Spec Spec
  | Info_Create string string CreateRequest
  | Error_RemoveRootDir string cause
  | Error_DeleteContainer string cause

datatype cstatus = CREATED | RUNNING

record Container =
  c_Pid :: "32 word"
  c_Status :: cstatus

text \<open>
  The state the service value points to (indexes, store, OS, execution service),
  together with the log and the sources of fresh identities, process ids and time.
\<close>

record world =
  rootDir :: string
  sandboxNameIndex :: Registrar
  sandboxIDIndex :: "string list"
  sandboxStore :: "string \<rightharpoonup> SandboxMetadata"
  dirs :: "string list"
  fifos :: "string list"
  openFiles :: "(nat \<times> string) list"
  nextHandle :: nat
  drains :: "nat list"
  containers :: "string \<rightharpoonup> Container"
  nextPid :: "32 word"
  calls :: "(call \<times> cause option) list"
  inject :: "call \<Rightarrow> cause option"
  glog :: "log_entry list"
  verbosity :: nat
  idSupply :: "nat \<Rightarrow> string"
  idCount :: nat
  clock :: "64 word"

definition called :: "call \<Rightarrow> cause option \<Rightarrow> world \<Rightarrow> world" where
  "called c res w = w\<lparr> calls := calls w @ [(c, res)] \<rparr>"

definition glog_V :: "nat \<Rightarrow> log_entry \<Rightarrow> world \<Rightarrow> world" where
  "glog_V level e w = (if level \<le> verbosity w then w\<lparr> glog := glog w @ [e] \<rparr> else w)"

definition glog_Errorf :: "log_entry \<Rightarrow> world \<Rightarrow> world" where
  "glog_Errorf e w = w\<lparr> glog := glog w @ [e] \<rparr>"

definition generateID :: "world \<Rightarrow> string \<times> world" where
  "generateID w = (idSupply w (idCount w), w\<lparr> idCount := Suc (idCount w) \<rparr>)"

definition time_Now_UnixNano :: "world \<Rightarrow> 64 word" where
  "time_Now_UnixNano w = clock w"

subsection \<open>OS capability\<close>

text \<open>
  Modelled from the spec: the OS package is not among the sources. A call that the
  environment makes fail changes nothing; \<^verbatim>\<open>MkdirAll\<close> makes the directory exist,
  \<^verbatim>\<open>RemoveAll\<close> removes the path and everything below it, \<^verbatim>\<open>OpenFifo\<close> creates the
  pipe when asked to and returns a fresh handle, and closing a handle that is not open
  is an error.
\<close>

definition below :: "string \<Rightarrow> string \<Rightarrow> bool" where
  "below d p = (p = d \<or> prefix (d @ ''/'') p)"

definition os_MkdirAll :: "string \<Rightarrow> nat \<Rightarrow> world \<Rightarrow> cause option \<times> world" where
  "os_MkdirAll path perm w =
     (case inject w (CallMkdirAll path perm) of
        Some err \<Rightarrow> (Some err, called (CallMkdirAll path perm) (Some err) w)
      | None \<Rightarrow>
          (None, called (CallMkdirAll path perm) None (w\<lparr> dirs := List.insert path (dirs w) \<rparr>)))"

definition os_RemoveAll :: "string \<Rightarrow> world \<Rightarrow> cause option \<times> world" where
  "os_RemoveAll path w =
     (case inject w (CallRemoveAll path) of
        Some err \<Rightarrow> (Some err, called (CallRemoveAll path) (Some err) w)
      | None \<Rightarrow>
          (None, called (CallRemoveAll path) None
             (w\<lparr> dirs := filter (\<lambda>p. \<not> below path p) (dirs w),
                 fifos := filter (\<lambda>p. \<not> below path p) (fifos w) \<rparr>)))"

definition os_OpenFifo ::
  "string \<Rightarrow> oflag list \<Rightarrow> nat \<Rightarrow> world \<Rightarrow> (cause + nat) \<times> world" where
  "os_OpenFifo fn flag perm w =
     (case inject w (CallOpenFifo fn flag perm) of
        Some err \<Rightarrow> (Inl err, called (CallOpenFifo fn flag perm) (Some err) w)
      | None \<Rightarrow>
          if O_CREAT \<notin> set flag \<and> fn \<notin> set (fifos w)
          then (Inl NotFound, called (CallOpenFifo fn flag perm) (Some NotFound) w)
          else (Inr (nextHandle w),
                called (CallOpenFifo fn flag perm) None
                  (w\<lparr> fifos := List.insert fn (fifos w),
                      openFiles := (nextHandle w, fn) # openFiles w,
                      nextHandle := Suc (nextHandle w) \<rparr>)))"

definition closer_Close :: "nat \<Rightarrow> world \<Rightarrow> cause option \<times> world" where
  "closer_Close f w =
     (case inject w (CallClose f) of
        Some err \<Rightarrow> (Some err, called (CallClose f) (Some err) w)
      | None \<Rightarrow>
          if f \<notin> fst ` set (openFiles w)
          then (Some Invalid, called (CallClose f) (Some Invalid) w)
          else (None, called (CallClose f) None
                  (w\<lparr> openFiles := filter (\<lambda>e. fst e \<noteq> f) (openFiles w) \<rparr>)))"

text \<open>
  The goroutine started for each pipe copies what it reads to the discard sink and
  closes the handle when the copy ends. It runs beside the orchestrator; the model
  records that it was started and nothing of what it does later.
\<close>

definition go_drain :: "nat \<Rightarrow> world \<Rightarrow> world" where
  "go_drain f w = w\<lparr> drains := f # drains w \<rparr>"

subsection \<open>JSON encoder, execution service, metadata store\<close>

text \<open>
  Modelled from the spec: the execution service is remote and the metadata store
  package is not among the sources. The encoding of a spec is kept as the spec it
  encodes. \<^verbatim>\<open>Create\<close> rejects an identity it already has and reports the process id;
  \<^verbatim>\<open>Start\<close> and \<^verbatim>\<open>Delete\<close> reject an identity they do not have; the store rejects a
  record whose identity is present.
\<close>

definition json_Marshal :: "Spec \<Rightarrow> world \<Rightarrow> cause + rawSpec" where
  "json_Marshal spec w =
     (case inject w (CallMarshal spec) of
        Some err \<Rightarrow> Inl err
      | None \<Rightarrow> Inr (Marshalled spec))"

definition containerService_Create ::
  "CreateRequest \<Rightarrow> world \<Rightarrow> (cause + CreateResponse) \<times> world" where
  "containerService_Create req w =
     (case inject w (CallCreate req) of
        Some err \<Rightarrow> (Inl err, called (CallCreate req) (Some err) w)
      | None \<Rightarrow>
          if containers w (cr_ID req) \<noteq> None
          then (Inl AlreadyExists, called (CallCreate req) (Some AlreadyExists) w)
          else (Inr \<lparr> Pid = nextPid w \<rparr>,
                called (CallCreate req) None
                  (w\<lparr> containers := (containers w)(cr_ID req \<mapsto>
                                        \<lparr> c_Pid = nextPid w, c_Status = CREATED \<rparr>),
                      nextPid := nextPid w + 1 \<rparr>)))"

definition containerService_Start :: "string \<Rightarrow> world \<Rightarrow> cause option \<times> world" where
  "containerService_Start ident w =
     (case inject w (CallStart ident) of
        Some err \<Rightarrow> (Some err, called (CallStart ident) (Some err) w)
      | None \<Rightarrow>
          (case containers w ident of
             None \<Rightarrow> (Some NotFound, called (CallStart ident) (Some NotFound) w)
           | Some c \<Rightarrow>
               (None, called (CallStart ident) None
                  (w\<lparr> containers := (containers w)(ident \<mapsto> c\<lparr> c_Status := RUNNING \<rparr>) \<rparr>))))"

definition containerService_Delete :: "string \<Rightarrow> world \<Rightarrow> cause option \<times> world" where
  "containerService_Delete ident w =
     (case inject w (CallDelete ident) of
        Some err \<Rightarrow> (Some err, called (CallDelete ident) (Some err) w)
      | None \<Rightarrow>
          if containers w ident = None
          then (Some NotFound, called (CallDelete ident) (Some NotFound) w)
          else (None, called (CallDelete ident) None
                  (w\<lparr> containers := (containers w)(ident := None) \<rparr>)))"

definition sandboxStore_Create :: "SandboxMetadata \<Rightarrow> world \<Rightarrow> cause option \<times> world" where
  "sandboxStore_Create meta w =
     (case inject w (CallStoreCreate meta) of
        Some err \<Rightarrow> (Some err, called (CallStoreCreate meta) (Some err) w)
      | None \<Rightarrow>
          if sandboxStore w (sm_ID meta) \<noteq> None
          then (Some AlreadyExists, called (CallStoreCreate meta) (Some AlreadyExists) w)
          else (None, called (CallStoreCreate meta) None
                  (w\<lparr> sandboxStore := (sandboxStore w)(sm_ID meta \<mapsto> meta) \<rparr>)))"

section \<open>The orchestrator\<close>

text \<open>
  The error \<^verbatim>\<open>RunPodSandbox\<close> returns: one constructor for each \<^verbatim>\<open>fmt.Errorf\<close> of the
  source, holding the arguments of its format string, the last of which is the error of
  the step that failed.
\<close>

datatype rps_error =
    FailedReserveName string cause
  | FailedInsertID string cause
  | FailedMkdir string cause
  | FailedOpenPipe string cause
  | FailedMarshal Spec cause
  | FailedCreate string cause
  | FailedStart string cause
  | FailedStoreCreate SandboxMetadata cause

text \<open>
  The deferred closures of the source, in the order the source registers them. Each
  reads the named results when the function returns; all but the first act only when
  \<^verbatim>\<open>retErr\<close> is not nil.
\<close>

datatype deferred =
    DeferLogReturn
  | DeferReleaseName string
  | DeferDeleteID string
  | DeferRemoveRootDir string
  | DeferClose nat
  | DeferDeleteContainer string

fun runDeferred ::
  "deferred \<Rightarrow> RunPodSandboxResponse option \<Rightarrow> rps_error option \<Rightarrow> world \<Rightarrow> world" where
  "runDeferred DeferLogReturn retRes retErr w =
     (if retErr = None then glog_V 2 (Info_Returns (GetPodSandboxId retRes)) w else w)"
| "runDeferred (DeferReleaseName name) retRes retErr w =
     (if retErr \<noteq> None
      then w\<lparr> sandboxNameIndex := ReleaseByName name (sandboxNameIndex w) \<rparr>
      else w)"
| "runDeferred (DeferDeleteID ident) retRes retErr w =
     (if retErr \<noteq> None
      then w\<lparr> sandboxIDIndex := TruncIndex_Delete ident (sandboxIDIndex w) \<rparr>
      else w)"
| "runDeferred (DeferRemoveRootDir sandboxRootDir) retRes retErr w =
     (if retErr \<noteq> None
      then (case os_RemoveAll sandboxRootDir w of
              (Some err, w') \<Rightarrow> glog_Errorf (Error_RemoveRootDir sandboxRootDir err) w'
            | (None, w') \<Rightarrow> w')
      else w)"
| "runDeferred (DeferClose f) retRes retErr w =
     (if retErr \<noteq> None then snd (closer_Close f w) else w)"
| "runDeferred (DeferDeleteContainer ident) retRes retErr w =
     (if retErr \<noteq> None
      then (case containerService_Delete ident w of
              (Some err, w') \<Rightarrow> glog_Errorf (Error_DeleteContainer ident err) w'
            | (None, w') \<Rightarrow> w')
      else w)"

text \<open>The defer stack runs last-registered first; its head is the last registered.\<close>

fun runAllDeferred ::
  "deferred list \<Rightarrow> RunPodSandboxResponse option \<Rightarrow> rps_error option \<Rightarrow> world \<Rightarrow> world" where
  "runAllDeferred [] retRes retErr w = w"
| "runAllDeferred (d # ds) retRes retErr w =
     runAllDeferred ds retRes retErr (runDeferred d retRes retErr w)"

definition pipeFlags :: "oflag list" where
  "pipeFlags = [O_RDONLY, O_CREAT, O_NONBLOCK]"

text \<open>The loop over the two pipe paths: open, defer the close, start the drain.\<close>

fun openPipes ::
  "string list \<Rightarrow> deferred list \<Rightarrow> world \<Rightarrow> rps_error option \<times> deferred list \<times> world" where
  "openPipes [] ds w = (None, ds, w)"
| "openPipes (p # ps) ds w =
     (case os_OpenFifo p pipeFlags 448 w of
        (Inl err, w') \<Rightarrow> (Some (FailedOpenPipe p err), ds, w')
      | (Inr f, w') \<Rightarrow> openPipes ps (DeferClose f # ds) (go_drain f w'))"

text \<open>
  The body of \<^verbatim>\<open>RunPodSandbox\<close> up to each \<^verbatim>\<open>return\<close>: the returned value, the defer
  stack at that point, and the world. The permissions \<open>493\<close> and \<open>448\<close> are the octal
  \<^verbatim>\<open>0755\<close> and \<^verbatim>\<open>0700\<close>. The context argument is handed on to the collaborators
  and read nowhere else; whether a collaborator fails, for a cancelled context or
  anything else, is the world's \<open>inject\<close>.
\<close>

definition RunPodSandbox_body ::
  "helpers \<Rightarrow> RunPodSandboxRequest option \<Rightarrow> world \<Rightarrow>
     (rps_error + RunPodSandboxResponse) \<times> deferred list \<times> world" where
  "RunPodSandbox_body h r w0 =
     (let w1 = glog_V 2 (Info_RunWithConfig (GetConfig r)) w0;
          d0 = [DeferLogReturn];
          config = GetConfig r;
          (ident, w2) = generateID w1;
          name = makeSandboxName h (GetMetadata config)
      in case Reserve name ident (sandboxNameIndex w2) of
           Inl err \<Rightarrow> (Inl (FailedReserveName name err), d0, w2)
         | Inr reg \<Rightarrow>
     (let w3 = w2\<lparr> sandboxNameIndex := reg \<rparr>;
          d1 = DeferReleaseName name # d0
      in case TruncIndex_Add ident (sandboxIDIndex w3) of
           Inl err \<Rightarrow> (Inl (FailedInsertID ident err), d1, w3)
         | Inr ix \<Rightarrow>
     (let w4 = w3\<lparr> sandboxIDIndex := ix \<rparr>;
          d2 = DeferDeleteID ident # d1;
          meta = \<lparr> sm_ID = ident, sm_Name = name, sm_Config = config,
                   sm_CreatedAt = 0, sm_NetNS = [] \<rparr>;
          rootPath = ''/'';
          sandboxRootDir = getSandboxRootDir h (rootDir w4) ident
      in case os_MkdirAll sandboxRootDir 493 w4 of
           (Some err, w5) \<Rightarrow> (Inl (FailedMkdir sandboxRootDir err), d2, w5)
         | (None, w5) \<Rightarrow>
     (let d3 = DeferRemoveRootDir sandboxRootDir # d2;
          (stdin, stdout, stderr) = getStreamingPipes h sandboxRootDir
      in case openPipes [stdout, stderr] d3 w5 of
           (Some err, d4, w6) \<Rightarrow> (Inl err, d4, w6)
         | (None, d4, w6) \<Rightarrow>
     (let spec = generateSandboxContainerSpec h ident config
      in case json_Marshal spec w6 of
           Inl err \<Rightarrow> (Inl (FailedMarshal spec err), d4, w6)
         | Inr rawSpec \<Rightarrow>
     (let w7 = glog_V 4 (Info_Spec spec) w6;
          createOpts =
            \<lparr> cr_ID = ident,
              cr_Spec = \<lparr> TypeUrl = specVersion h, Value = rawSpec \<rparr>,
              cr_Rootfs = [\<lparr> mount_Type = ''bind'', mount_Source = rootPath,
                             mount_Options = [''rw'', ''rbind''] \<rparr>],
              cr_Runtime = defaultRuntime h,
              cr_Stdout = stdout,
              cr_Stderr = stderr \<rparr>;
          w8 = glog_V 5 (Info_Create ident name createOpts) w7
      in case containerService_Create createOpts w8 of
           (Inl err, w9) \<Rightarrow> (Inl (FailedCreate ident err), d4, w9)
         | (Inr createResp, w9) \<Rightarrow>
     (let d5 = DeferDeleteContainer ident # d4
      in case containerService_Start ident w9 of
           (Some err, w10) \<Rightarrow> (Inl (FailedStart ident err), d5, w10)
         | (None, w10) \<Rightarrow>
     (let meta1 = meta\<lparr> sm_CreatedAt := time_Now_UnixNano w10 \<rparr>;
          meta2 = meta1\<lparr> sm_NetNS := getNetworkNamespace h (Pid createResp) \<rparr>
      in case sandboxStore_Create meta2 w10 of
           (Some err, w11) \<Rightarrow> (Inl (FailedStoreCreate meta2 err), d5, w11)
         | (None, w11) \<Rightarrow> (Inr \<lparr> PodSandboxId = ident \<rparr>, d5, w11)))))))))"

definition retRes :: "rps_error + RunPodSandboxResponse \<Rightarrow> RunPodSandboxResponse option" where
  "retRes ret = (case ret of Inl err \<Rightarrow> None | Inr res \<Rightarrow> Some res)"

definition retErr :: "rps_error + RunPodSandboxResponse \<Rightarrow> rps_error option" where
  "retErr ret = (case ret of Inl err \<Rightarrow> Some err | Inr res \<Rightarrow> None)"

text \<open>
  \<^verbatim>\<open>RunPodSandbox\<close>: the body, then the deferred closures on the named results. \<open>Inl\<close>
  is the source's \<^verbatim>\<open>return nil, err\<close>.
\<close>

definition RunPodSandbox ::
  "helpers \<Rightarrow> RunPodSandboxRequest option \<Rightarrow> world \<Rightarrow>
     (rps_error + RunPodSandboxResponse) \<times> world" where
  "RunPodSandbox h r w =
     (case RunPodSandbox_body h r w of
        (ret, ds, w') \<Rightarrow> (ret, runAllDeferred ds (retRes ret) (retErr ret) w'))"

section \<open>The generator as it runs\<close>

text \<open>
  \<^verbatim>\<open>generateSandboxContainerSpec\<close> is a method of the service, and the generator value it
  builds holds a reference to a spec object that every setter updates in place; what
  the method returns is that reference. Here the method is written once more with both
  made explicit: it runs in a state that holds the world the service points to and the
  spec objects allocated so far, and returns the reference (\<open>None\<close> is the nil pointer)
  with the state it leaves. The orchestrator above uses the value
  \<open>generateSandboxContainerSpec\<close>; that the object behind the returned reference
  holds exactly this value, whatever the state, is proved below.

  Modelled from the spec: the generator library is external. \<^verbatim>\<open>New\<close> allocates a
  fresh object holding the baseline; a setter allocates an empty spec first when the
  generator holds no reference; \<^verbatim>\<open>RemoveLinuxNamespace\<close> leaves a generator without a
  reference as it is, and the error it returns is discarded by the source.
\<close>

record Generator =
  gen_spec :: "nat option"

record exec_state =
  service :: world
  specObjects :: "nat \<rightharpoonup> Spec"
  nextObject :: nat

definition emptySpec :: Spec where
  "emptySpec =
     \<lparr> spec_Root = \<lparr> root_Path = [], root_Readonly = False \<rparr>,
       spec_Process = \<lparr> proc_Args = [] \<rparr>,
       spec_Hostname = [],
       spec_Linux = None \<rparr>"

definition newObject :: "Spec \<Rightarrow> exec_state \<Rightarrow> nat \<times> exec_state" where
  "newObject s st =
     (nextObject st,
      st\<lparr> specObjects := (specObjects st)(nextObject st \<mapsto> s),
          nextObject := Suc (nextObject st) \<rparr>)"

definition Generator_New :: "exec_state \<Rightarrow> Generator \<times> exec_state" where
  "Generator_New st = (case newObject generate_New st of (a, st') \<Rightarrow> (\<lparr> gen_spec = Some a \<rparr>, st'))"

definition Generator_initSpec :: "Generator \<Rightarrow> exec_state \<Rightarrow> Generator \<times> exec_state" where
  "Generator_initSpec g st =
     (case gen_spec g of
        Some a \<Rightarrow> (g, st)
      | None \<Rightarrow> (case newObject emptySpec st of (a, st') \<Rightarrow> (g\<lparr> gen_spec := Some a \<rparr>, st')))"

definition updateObject :: "(Spec \<Rightarrow> Spec) \<Rightarrow> Generator \<Rightarrow> exec_state \<Rightarrow> exec_state" where
  "updateObject f g st =
     (case gen_spec g of
        None \<Rightarrow> st
      | Some a \<Rightarrow>
          (case specObjects st a of
             None \<Rightarrow> st
           | Some s \<Rightarrow> st\<lparr> specObjects := (specObjects st)(a \<mapsto> f s) \<rparr>))"

definition Generator_set ::
  "(Spec \<Rightarrow> Spec) \<Rightarrow> Generator \<Rightarrow> exec_state \<Rightarrow> Generator \<times> exec_state" where
  "Generator_set f g st =
     (case Generator_initSpec g st of (g', st') \<Rightarrow> (g', updateObject f g' st'))"

definition Generator_SetRootPath ::
  "string \<Rightarrow> Generator \<Rightarrow> exec_state \<Rightarrow> Generator \<times> exec_state" where
  "Generator_SetRootPath p = Generator_set (SetRootPath p)"

definition Generator_SetProcessArgs ::
  "string list \<Rightarrow> Generator \<Rightarrow> exec_state \<Rightarrow> Generator \<times> exec_state" where
  "Generator_SetProcessArgs args = Generator_set (SetProcessArgs args)"

definition Generator_SetRootReadonly ::
  "bool \<Rightarrow> Generator \<Rightarrow> exec_state \<Rightarrow> Generator \<times> exec_state" where
  "Generator_SetRootReadonly b = Generator_set (SetRootReadonly b)"

definition Generator_SetHostname ::
  "string \<Rightarrow> Generator \<Rightarrow> exec_state \<Rightarrow> Generator \<times> exec_state" where
  "Generator_SetHostname s = Generator_set (SetHostname s)"

definition Generator_SetLinuxCgroupsPath ::
  "string \<Rightarrow> Generator \<Rightarrow> exec_state \<Rightarrow> Generator \<times> exec_state" where
  "Generator_SetLinuxCgroupsPath p = Generator_set (SetLinuxCgroupsPath p)"

definition Generator_RemoveLinuxNamespace ::
  "LinuxNamespaceType \<Rightarrow> Generator \<Rightarrow> exec_state \<Rightarrow> Generator \<times> exec_state" where
  "Generator_RemoveLinuxNamespace t g st = (g, updateObject (RemoveLinuxNamespace t) g st)"

definition Generator_Spec :: "Generator \<Rightarrow> nat option" where
  "Generator_Spec g = gen_spec g"

definition generateSandboxContainerSpec_exec ::
  "helpers \<Rightarrow> string \<Rightarrow> PodSandboxConfig option \<Rightarrow> exec_state \<Rightarrow> nat option \<times> exec_state" where
  "generateSandboxContainerSpec_exec h ident config st =
     (let (g0, s0) = Generator_New st;
          (g1, s1) = Generator_SetRootPath (relativeRootfsPath h) g0 s0;
          (g2, s2) = Generator_SetProcessArgs pauseCommand g1 s1;
          (g3, s3) = Generator_SetRootReadonly True g2 s2;
          (g4, s4) = Generator_SetHostname (GetHostname config) g3 s3;
          (g5, s5) = (if GetCgroupParent (GetLinux config) \<noteq> []
                      then Generator_SetLinuxCgroupsPath
                             (getCgroupsPath h (GetCgroupParent (GetLinux config)) ident) g4 s4
                      else (g4, s4));
          nsOptions = GetNamespaceOptions (GetSecurityContext (GetLinux config));
          (g6, s6) = (if GetHostNetwork nsOptions
                      then Generator_RemoveLinuxNamespace NetworkNamespace g5 s5 else (g5, s5));
          (g7, s7) = (if GetHostPid nsOptions
                      then Generator_RemoveLinuxNamespace PIDNamespace g6 s6 else (g6, s6));
          (g8, s8) = (if GetHostIpc nsOptions
                      then Generator_RemoveLinuxNamespace IPCNamespace g7 s7 else (g7, s7))
      in (Generator_Spec g8, s8))"

text \<open>The spec a returned reference points to; \<open>None\<close> for nil or a dangling reference.\<close>

definition specAt :: "nat option \<times> exec_state \<Rightarrow> Spec option" where
  "specAt res = (case fst res of None \<Rightarrow> None | Some a \<Rightarrow> specObjects (snd res) a)"

section \<open>The forward path in terms of the starting world\<close>

text \<open>
  What one call of \<^verbatim>\<open>RunPodSandbox\<close> computes from the request and the world it starts
  in: the generated identity, the derived name, the paths, the spec, the create request
  and the final record. The statements about the orchestrator are phrased with them.
\<close>

definition theID :: "world \<Rightarrow> string" where
  "theID w = fst (generateID w)"

definition theName :: "helpers \<Rightarrow> RunPodSandboxRequest option \<Rightarrow> string" where
  "theName h r = makeSandboxName h (GetMetadata (GetConfig r))"

definition theRootDir :: "helpers \<Rightarrow> world \<Rightarrow> string" where
  "theRootDir h w = getSandboxRootDir h (rootDir w) (theID w)"

definition theStdout :: "helpers \<Rightarrow> world \<Rightarrow> string" where
  "theStdout h w = fst (snd (getStreamingPipes h (theRootDir h w)))"

definition theStderr :: "helpers \<Rightarrow> world \<Rightarrow> string" where
  "theStderr h w = snd (snd (getStreamingPipes h (theRootDir h w)))"

definition theSpec :: "helpers \<Rightarrow> RunPodSandboxRequest option \<Rightarrow> world \<Rightarrow> Spec" where
  "theSpec h r w = generateSandboxContainerSpec h (theID w) (GetConfig r)"

definition theCreateOpts ::
  "helpers \<Rightarrow> RunPodSandboxRequest option \<Rightarrow> world \<Rightarrow> CreateRequest" where
  "theCreateOpts h r w =
     \<lparr> cr_ID = theID w,
       cr_Spec = \<lparr> TypeUrl = specVersion h, Value = Marshalled (theSpec h r w) \<rparr>,
       cr_Rootfs = [\<lparr> mount_Type = ''bind'', mount_Source = ''/'',
                      mount_Options = [''rw'', ''rbind''] \<rparr>],
       cr_Runtime = defaultRuntime h,
       cr_Stdout = theStdout h w,
       cr_Stderr = theStderr h w \<rparr>"

definition theMeta ::
  "helpers \<Rightarrow> RunPodSandboxRequest option \<Rightarrow> world \<Rightarrow> SandboxMetadata" where
  "theMeta h r w =
     \<lparr> sm_ID = theID w, sm_Name = theName h r, sm_Config = GetConfig r,
       sm_CreatedAt = clock w, sm_NetNS = getNetworkNamespace h (nextPid w) \<rparr>"

text \<open>The three forward calls on the OS capability.\<close>

definition callMkdir :: "helpers \<Rightarrow> world \<Rightarrow> call" where
  "callMkdir h w = CallMkdirAll (theRootDir h w) 493"

definition callStdout :: "helpers \<Rightarrow> world \<Rightarrow> call" where
  "callStdout h w = CallOpenFifo (theStdout h w) [O_RDONLY, O_CREAT, O_NONBLOCK] 448"

definition callStderr :: "helpers \<Rightarrow> world \<Rightarrow> call" where
  "callStderr h w = CallOpenFifo (theStderr h w) [O_RDONLY, O_CREAT, O_NONBLOCK] 448"

text \<open>
  The world after each forward step has succeeded, written as updates of the starting
  world: \<open>infoLog\<close> is what the verbose log has received by then, the argument counting
  the two messages logged before the create request.
\<close>

definition infoLog :: "helpers \<Rightarrow> RunPodSandboxRequest option \<Rightarrow> world \<Rightarrow> nat \<Rightarrow> log_entry list" where
  "infoLog h r w n =
     (if 2 \<le> verbosity w then [Info_RunWithConfig (GetConfig r)] else [])
     @ (if 4 \<le> verbosity w \<and> 1 \<le> n then [Info_Spec (theSpec h r w)] else [])
     @ (if 5 \<le> verbosity w \<and> 2 \<le> n
        then [Info_Create (theID w) (theName h r) (theCreateOpts h r w)] else [])"

definition w_entered :: "helpers \<Rightarrow> RunPodSandboxRequest option \<Rightarrow> world \<Rightarrow> world" where
  "w_entered h r w = w\<lparr> glog := glog w @ infoLog h r w 0, idCount := Suc (idCount w) \<rparr>"

definition w_reserved :: "helpers \<Rightarrow> RunPodSandboxRequest option \<Rightarrow> world \<Rightarrow> world" where
  "w_reserved h r w =
     (w_entered h r w)\<lparr> sandboxNameIndex :=
        (sandboxNameIndex w)\<lparr>
           nameToKey := (nameToKey (sandboxNameIndex w))(theName h r \<mapsto> theID w),
           keyToName := (keyToName (sandboxNameIndex w))(theID w \<mapsto> theName h r) \<rparr> \<rparr>"

definition w_indexed :: "helpers \<Rightarrow> RunPodSandboxRequest option \<Rightarrow> world \<Rightarrow> world" where
  "w_indexed h r w = (w_reserved h r w)\<lparr> sandboxIDIndex := theID w # sandboxIDIndex w \<rparr>"

definition w_dir :: "helpers \<Rightarrow> RunPodSandboxRequest option \<Rightarrow> world \<Rightarrow> world" where
  "w_dir h r w =
     (w_indexed h r w)\<lparr> dirs := List.insert (theRootDir h w) (dirs w),
                         calls := calls w @ [(callMkdir h w, None)] \<rparr>"

definition w_stdout :: "helpers \<Rightarrow> RunPodSandboxRequest option \<Rightarrow> world \<Rightarrow> world" where
  "w_stdout h r w =
     (w_dir h r w)\<lparr> fifos := List.insert (theStdout h w) (fifos w),
                     openFiles := (nextHandle w, theStdout h w) # openFiles w,
                     nextHandle := Suc (nextHandle w),
                     drains := nextHandle w # drains w,
                     calls := calls w @ [(callMkdir h w, None), (callStdout h w, None)] \<rparr>"

definition w_stderr :: "helpers \<Rightarrow> RunPodSandboxRequest option \<Rightarrow> world \<Rightarrow> world" where
  "w_stderr h r w =
     (w_stdout h r w)\<lparr>
        fifos := List.insert (theStderr h w) (List.insert (theStdout h w) (fifos w)),
        openFiles := (Suc (nextHandle w), theStderr h w) # (nextHandle w, theStdout h w)
                       # openFiles w,
        nextHandle := Suc (Suc (nextHandle w)),
        drains := Suc (nextHandle w) # nextHandle w # drains w,
        calls := calls w @ [(callMkdir h w, None), (callStdout h w, None),
                            (callStderr h w, None)] \<rparr>"

definition w_encoded :: "helpers \<Rightarrow> RunPodSandboxRequest option \<Rightarrow> world \<Rightarrow> world" where
  "w_encoded h r w = (w_stderr h r w)\<lparr> glog := glog w @ infoLog h r w 2 \<rparr>"

definition w_created :: "helpers \<Rightarrow> RunPodSandboxRequest option \<Rightarrow> world \<Rightarrow> world" where
  "w_created h r w =
     (w_encoded h r w)\<lparr>
        containers := (containers w)(theID w \<mapsto> \<lparr> c_Pid = nextPid w, c_Status = CREATED \<rparr>),
        nextPid := nextPid w + 1,
        calls := calls w @ [(callMkdir h w, None), (callStdout h w, None),
                            (callStderr h w, None), (CallCreate (theCreateOpts h r w), None)] \<rparr>"

definition w_started :: "helpers \<Rightarrow> RunPodSandboxRequest option \<Rightarrow> world \<Rightarrow> world" where
  "w_started h r w =
     (w_created h r w)\<lparr>
        containers := (containers w)(theID w \<mapsto> \<lparr> c_Pid = nextPid w, c_Status = RUNNING \<rparr>),
        calls := calls w @ [(callMkdir h w, None), (callStdout h w, None),
                            (callStderr h w, None), (CallCreate (theCreateOpts h r w), None),
                            (CallStart (theID w), None)] \<rparr>"

definition w_stored :: "helpers \<Rightarrow> RunPodSandboxRequest option \<Rightarrow> world \<Rightarrow> world" where
  "w_stored h r w =
     (w_started h r w)\<lparr>
        sandboxStore := (sandboxStore w)(theID w \<mapsto> theMeta h r w),
        calls := calls w @ [(callMkdir h w, None), (callStdout h w, None),
                            (callStderr h w, None), (CallCreate (theCreateOpts h r w), None),
                            (CallStart (theID w), None),
                            (CallStoreCreate (theMeta h r w), None)] \<rparr>"

text \<open>The defer stack after each registration.\<close>

definition ds_reserved :: "helpers \<Rightarrow> RunPodSandboxRequest option \<Rightarrow> world \<Rightarrow> deferred list" where
  "ds_reserved h r w = [DeferReleaseName (theName h r), DeferLogReturn]"

definition ds_indexed :: "helpers \<Rightarrow> RunPodSandboxRequest option \<Rightarrow> world \<Rightarrow> deferred list" where
  "ds_indexed h r w = DeferDeleteID (theID w) # ds_reserved h r w"

definition ds_dir :: "helpers \<Rightarrow> RunPodSandboxRequest option \<Rightarrow> world \<Rightarrow> deferred list" where
  "ds_dir h r w = DeferRemoveRootDir (theRootDir h w) # ds_indexed h r w"

definition ds_stdout :: "helpers \<Rightarrow> RunPodSandboxRequest option \<Rightarrow> world \<Rightarrow> deferred list" where
  "ds_stdout h r w = DeferClose (nextHandle w) # ds_dir h r w"

definition ds_stderr :: "helpers \<Rightarrow> RunPodSandboxRequest option \<Rightarrow> world \<Rightarrow> deferred list" where
  "ds_stderr h r w = DeferClose (Suc (nextHandle w)) # ds_stdout h r w"

definition ds_created :: "helpers \<Rightarrow> RunPodSandboxRequest option \<Rightarrow> world \<Rightarrow> deferred list" where
  "ds_created h r w = DeferDeleteContainer (theID w) # ds_stderr h r w"

text \<open>
  The error, if any, each forward step returns when it is reached. The steps before it
  leave what it depends on untouched, so it is read off the starting world.
\<close>

definition reserveErr :: "helpers \<Rightarrow> RunPodSandboxRequest option \<Rightarrow> world \<Rightarrow> cause option" where
  "reserveErr h r w =
     (if nameToKey (sandboxNameIndex w) (theName h r) \<noteq> None then Some AlreadyExists else None)"

definition addErr :: "world \<Rightarrow> cause option" where
  "addErr w =
     (if theID w = [] then Some Invalid
      else if theID w \<in> set (sandboxIDIndex w) then Some AlreadyExists
      else None)"

definition mkdirErr :: "helpers \<Rightarrow> world \<Rightarrow> cause option" where
  "mkdirErr h w = inject w (callMkdir h w)"

definition stdoutErr :: "helpers \<Rightarrow> world \<Rightarrow> cause option" where
  "stdoutErr h w = inject w (callStdout h w)"

definition stderrErr :: "helpers \<Rightarrow> world \<Rightarrow> cause option" where
  "stderrErr h w = inject w (callStderr h w)"

definition marshalErr :: "helpers \<Rightarrow> RunPodSandboxRequest option \<Rightarrow> world \<Rightarrow> cause option" where
  "marshalErr h r w = inject w (CallMarshal (theSpec h r w))"

definition createErr :: "helpers \<Rightarrow> RunPodSandboxRequest option \<Rightarrow> world \<Rightarrow> cause option" where
  "createErr h r w =
     (case inject w (CallCreate (theCreateOpts h r w)) of
        Some err \<Rightarrow> Some err
      | None \<Rightarrow> if containers w (theID w) \<noteq> None then Some AlreadyExists else None)"

definition startErr :: "world \<Rightarrow> cause option" where
  "startErr w = inject w (CallStart (theID w))"

definition storeErr :: "helpers \<Rightarrow> RunPodSandboxRequest option \<Rightarrow> world \<Rightarrow> cause option" where
  "storeErr h r w =
     (case inject w (CallStoreCreate (theMeta h r w)) of
        Some err \<Rightarrow> Some err
      | None \<Rightarrow> if sandboxStore w (theID w) \<noteq> None then Some AlreadyExists else None)"

text \<open>
  The body as one case distinction over the forward steps (shown equal to
  \<open>RunPodSandbox_body\<close> below), and the error of the first forward step that fails,
  wrapped as the source wraps it. Neither looks at what a compensating call returns.
\<close>

definition forwardRun ::
  "helpers \<Rightarrow> RunPodSandboxRequest option \<Rightarrow> world \<Rightarrow>
     (rps_error + RunPodSandboxResponse) \<times> deferred list \<times> world" where
  "forwardRun h r w =
     (case reserveErr h r w of
        Some e \<Rightarrow> (Inl (FailedReserveName (theName h r) e), [DeferLogReturn], w_entered h r w)
      | None \<Rightarrow>
     (case addErr w of
        Some e \<Rightarrow> (Inl (FailedInsertID (theID w) e), ds_reserved h r w, w_reserved h r w)
      | None \<Rightarrow>
     (case mkdirErr h w of
        Some e \<Rightarrow> (Inl (FailedMkdir (theRootDir h w) e), ds_indexed h r w,
                   called (callMkdir h w) (Some e) (w_indexed h r w))
      | None \<Rightarrow>
     (case stdoutErr h w of
        Some e \<Rightarrow> (Inl (FailedOpenPipe (theStdout h w) e), ds_dir h r w,
                   called (callStdout h w) (Some e) (w_dir h r w))
      | None \<Rightarrow>
     (case stderrErr h w of
        Some e \<Rightarrow> (Inl (FailedOpenPipe (theStderr h w) e), ds_stdout h r w,
                   called (callStderr h w) (Some e) (w_stdout h r w))
      | None \<Rightarrow>
     (case marshalErr h r w of
        Some e \<Rightarrow> (Inl (FailedMarshal (theSpec h r w) e), ds_stderr h r w, w_stderr h r w)
      | None \<Rightarrow>
     (case createErr h r w of
        Some e \<Rightarrow> (Inl (FailedCreate (theID w) e), ds_stderr h r w,
                   called (CallCreate (theCreateOpts h r w)) (Some e) (w_encoded h r w))
      | None \<Rightarrow>
     (case startErr w of
        Some e \<Rightarrow> (Inl (FailedStart (theID w) e), ds_created h r w,
                   called (CallStart (theID w)) (Some e) (w_created h r w))
      | None \<Rightarrow>
     (case storeErr h r w of
        Some e \<Rightarrow> (Inl (FailedStoreCreate (theMeta h r w) e), ds_created h r w,
                   called (CallStoreCreate (theMeta h r w)) (Some e) (w_started h r w))
      | None \<Rightarrow>
          (Inr \<lparr> PodSandboxId = theID w \<rparr>, ds_created h r w, w_stored h r w))))))))))"

definition firstForwardFailure ::
  "helpers \<Rightarrow> RunPodSandboxRequest option \<Rightarrow> world \<Rightarrow> rps_error option" where
  "firstForwardFailure h r w =
     (case reserveErr h r w of Some e \<Rightarrow> Some (FailedReserveName (theName h r) e) | None \<Rightarrow>
     (case addErr w of Some e \<Rightarrow> Some (FailedInsertID (theID w) e) | None \<Rightarrow>
     (case mkdirErr h w of Some e \<Rightarrow> Some (FailedMkdir (theRootDir h w) e) | None \<Rightarrow>
     (case stdoutErr h w of Some e \<Rightarrow> Some (FailedOpenPipe (theStdout h w) e) | None \<Rightarrow>
     (case stderrErr h w of Some e \<Rightarrow> Some (FailedOpenPipe (theStderr h w) e) | None \<Rightarrow>
     (case marshalErr h r w of Some e \<Rightarrow> Some (FailedMarshal (theSpec h r w) e) | None \<Rightarrow>
     (case createErr h r w of Some e \<Rightarrow> Some (FailedCreate (theID w) e) | None \<Rightarrow>
     (case startErr w of Some e \<Rightarrow> Some (FailedStart (theID w) e) | None \<Rightarrow>
     (case storeErr h r w of Some e \<Rightarrow> Some (FailedStoreCreate (theMeta h r w) e)
      | None \<Rightarrow> None)))))))))"

text \<open>
  The compensating calls, the call a deferred closure makes when the function returns
  an error, and the calls a run has added to the record of calls.
\<close>

fun isCompensation :: "call \<Rightarrow> bool" where
  "isCompensation (CallRemoveAll p) = True"
| "isCompensation (CallClose f) = True"
| "isCompensation (CallDelete i) = True"
| "isCompensation c = False"

definition newCalls :: "world \<Rightarrow> world \<Rightarrow> (call \<times> cause option) list" where
  "newCalls w w' = drop (length (calls w)) (calls w')"

section \<open>An instance for evaluation\<close>

text \<open>
  One choice of the helper parameters, and worlds in the shape of the test service of
  the repository: empty indexes, store and file system, root directory
  \<^verbatim>\<open>/test/rootfs\<close>. A world is given the plan of environment failures.
\<close>

definition exampleHelpers :: helpers where
  "exampleHelpers =
     \<lparr> relativeRootfsPath = ''rootfs'',
       defaultRuntime = ''linux'',
       makeSandboxName =
         (\<lambda>m. case m of None \<Rightarrow> [] | Some x \<Rightarrow> Name x @ ''_'' @ Namespace x @ ''_'' @ Uid x),
       getCgroupsPath = (\<lambda>p i. p @ ''/'' @ i),
       getSandboxRootDir = (\<lambda>d i. d @ ''/sandboxes/'' @ i),
       getStreamingPipes = (\<lambda>d. (d @ ''/stdin'', d @ ''/stdout'', d @ ''/stderr'')),
       getNetworkNamespace = (\<lambda>pid. ''/proc/pid/ns/net''),
       specVersion = ''1.0.0'' \<rparr>"

definition newTestWorld :: "(call \<Rightarrow> cause option) \<Rightarrow> world" where
  "newTestWorld plan =
     \<lparr> rootDir = ''/test/rootfs'',
       sandboxNameIndex = NewRegistrar,
       sandboxIDIndex = [],
       sandboxStore = Map.empty,
       dirs = [], fifos = [], openFiles = [], nextHandle = 3, drains = [],
       containers = Map.empty, nextPid = 100, calls = [],
       inject = plan, glog = [], verbosity = 0,
       idSupply = (\<lambda>n. replicate (Suc n) CHR ''a''), idCount = 0, clock = 1 \<rparr>"

definition testConfig :: PodSandboxConfig where
  "testConfig =
     \<lparr> Metadata = Some \<lparr> Name = ''test-name'', Uid = ''test-uid'',
                          Namespace = ''test-ns'', Attempt = 1 \<rparr>,
       Hostname = ''test-hostname'', LogDirectory = ''test-log-directory'',
       Labels = [''a'' \<mapsto> ''b''], Annotations = [''c'' \<mapsto> ''d''],
       Linux = Some \<lparr> CgroupParent = ''/test/cgroup/parent'', SecurityContext = None \<rparr> \<rparr>"

definition testRequest :: "RunPodSandboxRequest option" where
  "testRequest = Some \<lparr> Config = Some testConfig \<rparr>"

definition noFailure :: "call \<Rightarrow> cause option" where
  "noFailure c = None"

definition startFails :: "call \<Rightarrow> cause option" where
  "startFails c = (case c of CallStart i \<Rightarrow> Some (Failure ''start'') | _ \<Rightarrow> None)"

definition startAndCleanupFail :: "call \<Rightarrow> cause option" where
  "startAndCleanupFail c =
     (case c of
        CallStart i \<Rightarrow> Some (Failure ''start'')
      | CallDelete i \<Rightarrow> Some (Failure ''delete'')
      | CallRemoveAll p \<Rightarrow> Some (Failure ''remove'')
      | CallClose f \<Rightarrow> Some (Failure ''close'')
      | _ \<Rightarrow> None)"

definition startAndCloseFail :: "call \<Rightarrow> cause option" where
  "startAndCloseFail c =
     (case c of
        CallStart i \<Rightarrow> Some (Failure ''start'')
      | CallClose f \<Rightarrow> Some (Failure ''close'')
      | _ \<Rightarrow> None)"

definition storeAndDeleteFail :: "call \<Rightarrow> cause option" where
  "storeAndDeleteFail c =
     (case c of
        CallStoreCreate m \<Rightarrow> Some (Failure ''store'')
      | CallDelete i \<Rightarrow> Some (Failure ''delete'')
      | _ \<Rightarrow> None)"

text \<open>A world in which the identity about to be generated is already indexed.\<close>

definition identityTakenWorld :: world where
  "identityTakenWorld = (newTestWorld noFailure)\<lparr> sandboxIDIndex := [''a''] \<rparr>"

text \<open>A world in which another caller holds the name the request derives.\<close>

definition nameTakenWorld :: world where
  "nameTakenWorld =
     (newTestWorld noFailure)\<lparr> sandboxNameIndex :=
        \<lparr> nameToKey = [''test-name_test-ns_test-uid'' \<mapsto> ''other''],
          keyToName = [''other'' \<mapsto> ''test-name_test-ns_test-uid''] \<rparr> \<rparr>"

text \<open>Configs that differ from the test config in the Linux block only.\<close>

definition hostNetworkConfig :: PodSandboxConfig where
  "hostNetworkConfig =
     testConfig\<lparr> Linux := Some \<lparr> CgroupParent = ''/test/cgroup/parent'',
       SecurityContext = Some \<lparr> NamespaceOptions =
         Some \<lparr> HostNetwork = True, HostPid = False, HostIpc = False \<rparr> \<rparr> \<rparr> \<rparr>"

definition hostDefaultsConfig :: PodSandboxConfig where
  "hostDefaultsConfig =
     testConfig\<lparr> Linux := Some \<lparr> CgroupParent = [],
       SecurityContext = Some \<lparr> NamespaceOptions =
         Some \<lparr> HostNetwork = False, HostPid = False, HostIpc = False \<rparr> \<rparr> \<rparr> \<rparr>"

text \<open>
  Two states for running the generator: one with no spec object yet, over a world
  without failures, and one that already holds a spec object, over a world in which
  the start and every compensation fail.
\<close>

definition freshExecState :: exec_state where
  "freshExecState =
     \<lparr> service = newTestWorld noFailure, specObjects = Map.empty, nextObject = 0 \<rparr>"

definition busyExecState :: exec_state where
  "busyExecState =
     \<lparr> service = newTestWorld startAndCleanupFail,
       specObjects = [0 \<mapsto> emptySpec], nextObject = 1 \<rparr>"

section \<open>The body, step by step\<close>

text \<open>
  One lemma for each place where the body returns: when the steps before succeed and
  this one fails, the body returns the wrapped error, the defer stack registered so far
  and the world the forward steps have produced.
\<close>

lemma glog_V_alt:
  "glog_V level e w = w\<lparr> glog := glog w @ (if level \<le> verbosity w then [e] else []) \<rparr>"
  by (simp add: glog_V_def)

lemmas the_defs = theID_def theName_def theRootDir_def theStdout_def theStderr_def theSpec_def
  theCreateOpts_def theMeta_def callMkdir_def callStdout_def callStderr_def

lemmas err_defs = reserveErr_def addErr_def mkdirErr_def stdoutErr_def stderrErr_def
  marshalErr_def createErr_def startErr_def storeErr_def

lemmas fw_defs = infoLog_def w_entered_def w_reserved_def w_indexed_def w_dir_def w_stdout_def
  w_stderr_def w_encoded_def w_created_def w_started_def w_stored_def
  ds_reserved_def ds_indexed_def ds_dir_def ds_stdout_def ds_stderr_def ds_created_def

lemmas fwd_op_defs = generateID_def glog_V_alt Reserve_def TruncIndex_Add_def os_MkdirAll_def
  os_OpenFifo_def go_drain_def json_Marshal_def containerService_Create_def
  containerService_Start_def sandboxStore_Create_def called_def time_Now_UnixNano_def
  pipeFlags_def


lemma reserveErr_None: "(reserveErr h r w = None) = (nameToKey (sandboxNameIndex w) (theName h r) = None)"
  by (simp add: reserveErr_def)

lemma reserveErr_Some: "(reserveErr h r w = Some e) = (nameToKey (sandboxNameIndex w) (theName h r) \<noteq> None \<and> e = AlreadyExists)"
  by (auto simp add: reserveErr_def)

lemma addErr_None: "(addErr w = None) = (theID w \<noteq> [] \<and> theID w \<notin> set (sandboxIDIndex w))"
  by (simp add: addErr_def)

lemma addErr_Some: "(addErr w = Some e) =
    (theID w = [] \<and> e = Invalid \<or> theID w \<noteq> [] \<and> theID w \<in> set (sandboxIDIndex w) \<and> e = AlreadyExists)"
  by (auto simp add: addErr_def)

lemma createErr_None: "(createErr h r w = None) =
    (inject w (CallCreate (theCreateOpts h r w)) = None \<and> containers w (theID w) = None)"
  by (simp add: createErr_def split: option.splits)

lemma createErr_Some: "(createErr h r w = Some e) =
    (inject w (CallCreate (theCreateOpts h r w)) = Some e
     \<or> inject w (CallCreate (theCreateOpts h r w)) = None \<and> containers w (theID w) \<noteq> None \<and> e = AlreadyExists)"
  by (auto simp add: createErr_def split: option.splits)

lemma storeErr_None: "(storeErr h r w = None) =
    (inject w (CallStoreCreate (theMeta h r w)) = None \<and> sandboxStore w (theID w) = None)"
  by (simp add: storeErr_def split: option.splits)

lemma storeErr_Some: "(storeErr h r w = Some e) =
    (inject w (CallStoreCreate (theMeta h r w)) = Some e
     \<or> inject w (CallStoreCreate (theMeta h r w)) = None \<and> sandboxStore w (theID w) \<noteq> None \<and> e = AlreadyExists)"
  by (auto simp add: storeErr_def split: option.splits)

lemmas err_simps = reserveErr_None reserveErr_Some addErr_None addErr_Some createErr_None
  createErr_Some storeErr_None storeErr_Some mkdirErr_def stdoutErr_def stderrErr_def
  marshalErr_def startErr_def

lemmas run_defs = the_defs fw_defs fwd_op_defs

lemma body_reserve_fails:
  assumes "reserveErr h r w = Some e"
  shows "RunPodSandbox_body h r w = (Inl (FailedReserveName (theName h r) e), [DeferLogReturn], w_entered h r w)"
  using assms
  apply (simp only: err_simps)
  apply ((elim disjE conjE)?)
  apply (simp_all add: RunPodSandbox_body_def run_defs Let_def split_beta)
  done

lemma body_add_fails:
  assumes "reserveErr h r w = None"
      and "addErr w = Some e"
  shows "RunPodSandbox_body h r w = (Inl (FailedInsertID (theID w) e), ds_reserved h r w, w_reserved h r w)"
  using assms
  apply (simp only: err_simps)
  apply ((elim disjE conjE)?)
  apply (simp_all add: RunPodSandbox_body_def run_defs Let_def split_beta)
  done

lemma body_mkdir_fails:
  assumes "reserveErr h r w = None"
      and "addErr w = None"
      and "mkdirErr h w = Some e"
  shows "RunPodSandbox_body h r w = (Inl (FailedMkdir (theRootDir h w) e), ds_indexed h r w, called (callMkdir h w) (Some e) (w_indexed h r w))"
  using assms
  apply (simp only: err_simps)
  apply ((elim disjE conjE)?)
  apply (simp_all add: RunPodSandbox_body_def run_defs Let_def split_beta)
  done

lemma body_stdout_fails:
  assumes "reserveErr h r w = None"
      and "addErr w = None"
      and "mkdirErr h w = None"
      and "stdoutErr h w = Some e"
  shows "RunPodSandbox_body h r w = (Inl (FailedOpenPipe (theStdout h w) e), ds_dir h r w, called (callStdout h w) (Some e) (w_dir h r w))"
  using assms
  apply (simp only: err_simps)
  apply ((elim disjE conjE)?)
  apply (simp_all add: RunPodSandbox_body_def run_defs Let_def split_beta)
  done

lemma body_stderr_fails:
  assumes "reserveErr h r w = None"
      and "addErr w = None"
      and "mkdirErr h w = None"
      and "stdoutErr h w = None"
      and "stderrErr h w = Some e"
  shows "RunPodSandbox_body h r w = (Inl (FailedOpenPipe (theStderr h w) e), ds_stdout h r w, called (callStderr h w) (Some e) (w_stdout h r w))"
  using assms
  apply (simp only: err_simps)
  apply ((elim disjE conjE)?)
  apply (simp_all add: RunPodSandbox_body_def run_defs Let_def split_beta)
  done

lemma body_marshal_fails:
  assumes "reserveErr h r w = None"
      and "addErr w = None"
      and "mkdirErr h w = None"
      and "stdoutErr h w = None"
      and "stderrErr h w = None"
      and "marshalErr h r w = Some e"
  shows "RunPodSandbox_body h r w = (Inl (FailedMarshal (theSpec h r w) e), ds_stderr h r w, w_stderr h r w)"
  using assms
  apply (simp only: err_simps)
  apply ((elim disjE conjE)?)
  apply (simp_all add: RunPodSandbox_body_def run_defs Let_def split_beta)
  done

lemma body_create_fails:
  assumes "reserveErr h r w = None"
      and "addErr w = None"
      and "mkdirErr h w = None"
      and "stdoutErr h w = None"
      and "stderrErr h w = None"
      and "marshalErr h r w = None"
      and "createErr h r w = Some e"
  shows "RunPodSandbox_body h r w = (Inl (FailedCreate (theID w) e), ds_stderr h r w, called (CallCreate (theCreateOpts h r w)) (Some e) (w_encoded h r w))"
  using assms
  apply (simp only: err_simps)
  apply ((elim disjE conjE)?)
  apply (simp_all add: RunPodSandbox_body_def run_defs Let_def split_beta)
  done

lemma body_start_fails:
  assumes "reserveErr h r w = None"
      and "addErr w = None"
      and "mkdirErr h w = None"
      and "stdoutErr h w = None"
      and "stderrErr h w = None"
      and "marshalErr h r w = None"
      and "createErr h r w = None"
      and "startErr w = Some e"
  shows "RunPodSandbox_body h r w = (Inl (FailedStart (theID w) e), ds_created h r w, called (CallStart (theID w)) (Some e) (w_created h r w))"
  using assms
  apply (simp only: err_simps)
  apply ((elim disjE conjE)?)
  apply (simp_all add: RunPodSandbox_body_def run_defs Let_def split_beta)
  done

lemma body_store_fails:
  assumes "reserveErr h r w = None"
      and "addErr w = None"
      and "mkdirErr h w = None"
      and "stdoutErr h w = None"
      and "stderrErr h w = None"
      and "marshalErr h r w = None"
      and "createErr h r w = None"
      and "startErr w = None"
      and "storeErr h r w = Some e"
  shows "RunPodSandbox_body h r w = (Inl (FailedStoreCreate (theMeta h r w) e), ds_created h r w, called (CallStoreCreate (theMeta h r w)) (Some e) (w_started h r w))"
  using assms
  apply (simp only: err_simps)
  apply ((elim disjE conjE)?)
  apply (simp_all add: RunPodSandbox_body_def run_defs Let_def split_beta)
  done

lemma body_succeeds:
  assumes "reserveErr h r w = None"
      and "addErr w = None"
      and "mkdirErr h w = None"
      and "stdoutErr h w = None"
      and "stderrErr h w = None"
      and "marshalErr h r w = None"
      and "createErr h r w = None"
      and "startErr w = None"
      and "storeErr h r w = None"
  shows "RunPodSandbox_body h r w = (Inr \<lparr> PodSandboxId = theID w \<rparr>, ds_created h r w, w_stored h r w)"
  using assms
  apply (simp only: err_simps)
  apply ((elim disjE conjE)?)
  apply (simp_all add: RunPodSandbox_body_def run_defs Let_def split_beta)
  done

text \<open>Together the ten lemmas give the body as the case distinction \<open>forwardRun\<close>.\<close>

lemma body_forwardRun: "RunPodSandbox_body h r w = forwardRun h r w"
  by (simp add: forwardRun_def body_reserve_fails body_add_fails body_mkdir_fails
      body_stdout_fails body_stderr_fails body_marshal_fails body_create_fails
      body_start_fails body_store_fails body_succeeds split: option.split)

lemma RunPodSandbox_forwardRun:
  "RunPodSandbox h r w =
     (case forwardRun h r w of
        (ret, ds, W) \<Rightarrow> (ret, runAllDeferred ds (retRes ret) (retErr ret) W))"
  by (simp add: RunPodSandbox_def body_forwardRun)

subsection \<open>What a deferred closure does to each part of the world\<close>

lemmas comp_op_defs = ReleaseByName_def TruncIndex_Delete_def os_RemoveAll_def closer_Close_def
  containerService_Delete_def glog_Errorf_def called_def

lemma runDeferred_inject [simp]: "inject (runDeferred d res err w) = inject w"
  by (cases d) (simp_all add: comp_op_defs glog_V_alt split: option.splits)

lemma runDeferred_sandboxStore [simp]: "sandboxStore (runDeferred d res err w) = sandboxStore w"
  by (cases d) (simp_all add: comp_op_defs glog_V_alt split: option.splits)

lemma runDeferred_sandboxNameIndex:
  "sandboxNameIndex (runDeferred d res (Some e) w) =
     (case d of DeferReleaseName n \<Rightarrow> ReleaseByName n (sandboxNameIndex w)
      | _ \<Rightarrow> sandboxNameIndex w)"
  by (cases d) (simp_all add: os_RemoveAll_def closer_Close_def containerService_Delete_def
      glog_Errorf_def called_def split: option.splits)

lemma runDeferred_sandboxIDIndex:
  "sandboxIDIndex (runDeferred d res (Some e) w) =
     (case d of DeferDeleteID i \<Rightarrow> removeAll i (sandboxIDIndex w) | _ \<Rightarrow> sandboxIDIndex w)"
  by (cases d) (simp_all add: comp_op_defs split: option.splits)

lemma runDeferred_dirs:
  "dirs (runDeferred d res (Some e) w) =
     (case d of
        DeferRemoveRootDir p \<Rightarrow>
          (if inject w (CallRemoveAll p) = None then filter (\<lambda>q. \<not> below p q) (dirs w)
           else dirs w)
      | _ \<Rightarrow> dirs w)"
  by (cases d) (auto simp add: comp_op_defs split: option.splits)

lemma runDeferred_fifos:
  "fifos (runDeferred d res (Some e) w) =
     (case d of
        DeferRemoveRootDir p \<Rightarrow>
          (if inject w (CallRemoveAll p) = None then filter (\<lambda>q. \<not> below p q) (fifos w)
           else fifos w)
      | _ \<Rightarrow> fifos w)"
  by (cases d) (auto simp add: comp_op_defs split: option.splits)

lemma filter_fst_absent: "f \<notin> fst ` set xs \<Longrightarrow> filter (\<lambda>e. fst e \<noteq> f) xs = xs"
  by (induction xs) auto

lemma runDeferred_openFiles:
  "openFiles (runDeferred d res (Some e) w) =
     (case d of
        DeferClose f \<Rightarrow>
          (if inject w (CallClose f) = None then filter (\<lambda>x. fst x \<noteq> f) (openFiles w)
           else openFiles w)
      | _ \<Rightarrow> openFiles w)"
  by (cases d) (auto simp add: comp_op_defs filter_fst_absent split: option.splits)

lemma runDeferred_containers:
  "containers (runDeferred d res (Some e) w) =
     (case d of
        DeferDeleteContainer i \<Rightarrow>
          (if inject w (CallDelete i) = None then (containers w)(i := None) else containers w)
      | _ \<Rightarrow> containers w)"
  by (cases d) (auto simp add: comp_op_defs split: option.splits)

lemma runDeferred_success [simp]:
  "runDeferred d res None w =
     (case d of DeferLogReturn \<Rightarrow> glog_V 2 (Info_Returns (GetPodSandboxId res)) w | _ \<Rightarrow> w)"
  by (cases d) simp_all

lemmas runDeferred_fields = runDeferred_sandboxNameIndex runDeferred_sandboxIDIndex
  runDeferred_dirs runDeferred_fifos runDeferred_openFiles runDeferred_containers

lemmas fw_world_defs = infoLog_def w_entered_def w_reserved_def w_indexed_def w_dir_def
  w_stdout_def w_stderr_def w_encoded_def w_created_def w_started_def w_stored_def called_def

lemmas ds_defs = ds_reserved_def ds_indexed_def ds_dir_def ds_stdout_def ds_stderr_def
  ds_created_def

subsection \<open>The returned value, and the cases of a run\<close>

lemma fst_RunPodSandbox:
  "fst (RunPodSandbox h r w) =
     (case firstForwardFailure h r w of
        None \<Rightarrow> Inr \<lparr> PodSandboxId = theID w \<rparr>
      | Some e \<Rightarrow> Inl e)"
  by (simp add: RunPodSandbox_forwardRun forwardRun_def firstForwardFailure_def
      split: option.split)

lemma forwardRun_cases
  [case_names reserve add mkdir stdout stderr marshal create start store success]:
  obtains
    (reserve) c where "reserveErr h r w = Some c"
      "firstForwardFailure h r w = Some (FailedReserveName (theName h r) c)"
      "forwardRun h r w = (Inl (FailedReserveName (theName h r) c), [DeferLogReturn], w_entered h r w)"
  |     (add) c where "reserveErr h r w = None"
      "addErr w = Some c"
      "firstForwardFailure h r w = Some (FailedInsertID (theID w) c)"
      "forwardRun h r w = (Inl (FailedInsertID (theID w) c), ds_reserved h r w, w_reserved h r w)"
  |     (mkdir) c where "reserveErr h r w = None"
      "addErr w = None"
      "mkdirErr h w = Some c"
      "firstForwardFailure h r w = Some (FailedMkdir (theRootDir h w) c)"
      "forwardRun h r w = (Inl (FailedMkdir (theRootDir h w) c), ds_indexed h r w, called (callMkdir h w) (Some c) (w_indexed h r w))"
  |     (stdout) c where "reserveErr h r w = None"
      "addErr w = None"
      "mkdirErr h w = None"
      "stdoutErr h w = Some c"
      "firstForwardFailure h r w = Some (FailedOpenPipe (theStdout h w) c)"
      "forwardRun h r w = (Inl (FailedOpenPipe (theStdout h w) c), ds_dir h r w, called (callStdout h w) (Some c) (w_dir h r w))"
  |     (stderr) c where "reserveErr h r w = None"
      "addErr w = None"
      "mkdirErr h w = None"
      "stdoutErr h w = None"
      "stderrErr h w = Some c"
      "firstForwardFailure h r w = Some (FailedOpenPipe (theStderr h w) c)"
      "forwardRun h r w = (Inl (FailedOpenPipe (theStderr h w) c), ds_stdout h r w, called (callStderr h w) (Some c) (w_stdout h r w))"
  |     (marshal) c where "reserveErr h r w = None"
      "addErr w = None"
      "mkdirErr h w = None"
      "stdoutErr h w = None"
      "stderrErr h w = None"
      "marshalErr h r w = Some c"
      "firstForwardFailure h r w = Some (FailedMarshal (theSpec h r w) c)"
      "forwardRun h r w = (Inl (FailedMarshal (theSpec h r w) c), ds_stderr h r w, w_stderr h r w)"
  |     (create) c where "reserveErr h r w = None"
      "addErr w = None"
      "mkdirErr h w = None"
      "stdoutErr h w = None"
      "stderrErr h w = None"
      "marshalErr h r w = None"
      "createErr h r w = Some c"
      "firstForwardFailure h r w = Some (FailedCreate (theID w) c)"
      "forwardRun h r w = (Inl (FailedCreate (theID w) c), ds_stderr h r w, called (CallCreate (theCreateOpts h r w)) (Some c) (w_encoded h r w))"
  |     (start) c where "reserveErr h r w = None"
      "addErr w = None"
      "mkdirErr h w = None"
      "stdoutErr h w = None"
      "stderrErr h w = None"
      "marshalErr h r w = None"
      "createErr h r w = None"
      "startErr w = Some c"
      "firstForwardFailure h r w = Some (FailedStart (theID w) c)"
      "forwardRun h r w = (Inl (FailedStart (theID w) c), ds_created h r w, called (CallStart (theID w)) (Some c) (w_created h r w))"
  |     (store) c where "reserveErr h r w = None"
      "addErr w = None"
      "mkdirErr h w = None"
      "stdoutErr h w = None"
      "stderrErr h w = None"
      "marshalErr h r w = None"
      "createErr h r w = None"
      "startErr w = None"
      "storeErr h r w = Some c"
      "firstForwardFailure h r w = Some (FailedStoreCreate (theMeta h r w) c)"
      "forwardRun h r w = (Inl (FailedStoreCreate (theMeta h r w) c), ds_created h r w, called (CallStoreCreate (theMeta h r w)) (Some c) (w_started h r w))"
  |     (success) "reserveErr h r w = None"
      "addErr w = None"
      "mkdirErr h w = None"
      "stdoutErr h w = None"
      "stderrErr h w = None"
      "marshalErr h r w = None"
      "createErr h r w = None"
      "startErr w = None"
      "storeErr h r w = None"
      "firstForwardFailure h r w = None"
      "forwardRun h r w = (Inr \<lparr> PodSandboxId = theID w \<rparr>, ds_created h r w, w_stored h r w)"
proof -
  show ?thesis
  proof (cases "reserveErr h r w")
    case (Some c)
    then show ?thesis
      using reserve [of c] 
      by (simp add: forwardRun_def firstForwardFailure_def)
  next
    case n0: None
    show ?thesis
    proof (cases "addErr w")
      case (Some c)
      then show ?thesis
        using add [of c] n0
        by (simp add: forwardRun_def firstForwardFailure_def)
    next
      case n1: None
      show ?thesis
      proof (cases "mkdirErr h w")
        case (Some c)
        then show ?thesis
          using mkdir [of c] n0 n1
          by (simp add: forwardRun_def firstForwardFailure_def)
      next
        case n2: None
        show ?thesis
        proof (cases "stdoutErr h w")
          case (Some c)
          then show ?thesis
            using stdout [of c] n0 n1 n2
            by (simp add: forwardRun_def firstForwardFailure_def)
        next
          case n3: None
          show ?thesis
          proof (cases "stderrErr h w")
            case (Some c)
            then show ?thesis
              using stderr [of c] n0 n1 n2 n3
              by (simp add: forwardRun_def firstForwardFailure_def)
          next
            case n4: None
            show ?thesis
            proof (cases "marshalErr h r w")
              case (Some c)
              then show ?thesis
                using marshal [of c] n0 n1 n2 n3 n4
                by (simp add: forwardRun_def firstForwardFailure_def)
            next
              case n5: None
              show ?thesis
              proof (cases "createErr h r w")
                case (Some c)
                then show ?thesis
                  using create [of c] n0 n1 n2 n3 n4 n5
                  by (simp add: forwardRun_def firstForwardFailure_def)
              next
                case n6: None
                show ?thesis
                proof (cases "startErr w")
                  case (Some c)
                  then show ?thesis
                    using start [of c] n0 n1 n2 n3 n4 n5 n6
                    by (simp add: forwardRun_def firstForwardFailure_def)
                next
                  case n7: None
                  show ?thesis
                  proof (cases "storeErr h r w")
                    case (Some c)
                    then show ?thesis
                      using store [of c] n0 n1 n2 n3 n4 n5 n6 n7
                      by (simp add: forwardRun_def firstForwardFailure_def)
                  next
                    case n8: None
                    show ?thesis
                      using success n0 n1 n2 n3 n4 n5 n6 n7 n8
                      by (simp add: forwardRun_def firstForwardFailure_def)
                  qed
                qed
              qed
            qed
          qed
        qed
      qed
    qed
  qed
qed


subsection \<open>Independence from what the compensating calls return\<close>

lemma runDeferred_calls:
  "map fst (calls (runDeferred d res (Some e) w)) =
     map fst (calls w) @
     (case d of DeferRemoveRootDir p \<Rightarrow> [CallRemoveAll p] | DeferClose f \<Rightarrow> [CallClose f]
      | DeferDeleteContainer i \<Rightarrow> [CallDelete i] | _ \<Rightarrow> [])"
  by (cases d) (simp_all add: comp_op_defs split: option.splits)

lemma runDeferred_agree:
  assumes "sandboxNameIndex A = sandboxNameIndex B"
      and "sandboxIDIndex A = sandboxIDIndex B"
      and "map fst (calls A) = map fst (calls B)"
  shows "sandboxNameIndex (runDeferred d res err A) = sandboxNameIndex (runDeferred d res err B)
       \<and> sandboxIDIndex (runDeferred d res err A) = sandboxIDIndex (runDeferred d res err B)
       \<and> map fst (calls (runDeferred d res err A)) = map fst (calls (runDeferred d res err B))"
proof (cases err)
  case None
  with assms show ?thesis
    by (cases d) (simp_all add: glog_V_alt)
next
  case (Some e)
  with assms show ?thesis
    by (cases d)
       (simp_all add: runDeferred_sandboxNameIndex runDeferred_sandboxIDIndex runDeferred_calls
          del: runDeferred.simps)
qed

lemma runAllDeferred_agree:
  "sandboxNameIndex A = sandboxNameIndex B \<Longrightarrow> sandboxIDIndex A = sandboxIDIndex B
   \<Longrightarrow> map fst (calls A) = map fst (calls B)
   \<Longrightarrow> sandboxNameIndex (runAllDeferred ds res err A) = sandboxNameIndex (runAllDeferred ds res err B)
       \<and> sandboxIDIndex (runAllDeferred ds res err A) = sandboxIDIndex (runAllDeferred ds res err B)
       \<and> map fst (calls (runAllDeferred ds res err A)) = map fst (calls (runAllDeferred ds res err B))"
proof (induction ds arbitrary: A B)
  case Nil
  then show ?case by simp
next
  case (Cons d ds)
  from runDeferred_agree [OF Cons.prems, of d res err]
  show ?case
    by (simp del: runDeferred.simps) (intro Cons.IH; simp)
qed

lemma the_inject [simp]:
  "theID (w\<lparr> inject := f \<rparr>) = theID w"
  "theRootDir h (w\<lparr> inject := f \<rparr>) = theRootDir h w"
  "theStdout h (w\<lparr> inject := f \<rparr>) = theStdout h w"
  "theStderr h (w\<lparr> inject := f \<rparr>) = theStderr h w"
  "theSpec h r (w\<lparr> inject := f \<rparr>) = theSpec h r w"
  "theCreateOpts h r (w\<lparr> inject := f \<rparr>) = theCreateOpts h r w"
  "theMeta h r (w\<lparr> inject := f \<rparr>) = theMeta h r w"
  "callMkdir h (w\<lparr> inject := f \<rparr>) = callMkdir h w"
  "callStdout h (w\<lparr> inject := f \<rparr>) = callStdout h w"
  "callStderr h (w\<lparr> inject := f \<rparr>) = callStderr h w"
  "infoLog h r (w\<lparr> inject := f \<rparr>) n = infoLog h r w n"
  by (simp_all add: the_defs generateID_def infoLog_def)

lemma err_inject:
  assumes "\<forall>c. \<not> isCompensation c \<longrightarrow> f c = inject w c"
  shows "reserveErr h r (w\<lparr> inject := f \<rparr>) = reserveErr h r w"
    and "addErr (w\<lparr> inject := f \<rparr>) = addErr w"
    and "mkdirErr h (w\<lparr> inject := f \<rparr>) = mkdirErr h w"
    and "stdoutErr h (w\<lparr> inject := f \<rparr>) = stdoutErr h w"
    and "stderrErr h (w\<lparr> inject := f \<rparr>) = stderrErr h w"
    and "marshalErr h r (w\<lparr> inject := f \<rparr>) = marshalErr h r w"
    and "createErr h r (w\<lparr> inject := f \<rparr>) = createErr h r w"
    and "startErr (w\<lparr> inject := f \<rparr>) = startErr w"
    and "storeErr h r (w\<lparr> inject := f \<rparr>) = storeErr h r w"
  using assms
  by (auto simp add: err_defs callMkdir_def callStdout_def callStderr_def split: option.splits)

lemma w_entered_inject: "w_entered h r (w\<lparr> inject := f \<rparr>) = (w_entered h r w)\<lparr> inject := f \<rparr>"
  by (simp add: w_entered_def)

lemma w_reserved_inject: "w_reserved h r (w\<lparr> inject := f \<rparr>) = (w_reserved h r w)\<lparr> inject := f \<rparr>"
  by (simp add: w_reserved_def w_entered_inject)

lemma w_indexed_inject: "w_indexed h r (w\<lparr> inject := f \<rparr>) = (w_indexed h r w)\<lparr> inject := f \<rparr>"
  by (simp add: w_indexed_def w_reserved_inject)

lemma w_dir_inject: "w_dir h r (w\<lparr> inject := f \<rparr>) = (w_dir h r w)\<lparr> inject := f \<rparr>"
  by (simp add: w_dir_def w_indexed_inject)

lemma w_stdout_inject: "w_stdout h r (w\<lparr> inject := f \<rparr>) = (w_stdout h r w)\<lparr> inject := f \<rparr>"
  by (simp add: w_stdout_def w_dir_inject)

lemma w_stderr_inject: "w_stderr h r (w\<lparr> inject := f \<rparr>) = (w_stderr h r w)\<lparr> inject := f \<rparr>"
  by (simp add: w_stderr_def w_stdout_inject)

lemma w_encoded_inject: "w_encoded h r (w\<lparr> inject := f \<rparr>) = (w_encoded h r w)\<lparr> inject := f \<rparr>"
  by (simp add: w_encoded_def w_stderr_inject)

lemma w_created_inject: "w_created h r (w\<lparr> inject := f \<rparr>) = (w_created h r w)\<lparr> inject := f \<rparr>"
  by (simp add: w_created_def w_encoded_inject)

lemma w_started_inject: "w_started h r (w\<lparr> inject := f \<rparr>) = (w_started h r w)\<lparr> inject := f \<rparr>"
  by (simp add: w_started_def w_created_inject)

lemma w_stored_inject: "w_stored h r (w\<lparr> inject := f \<rparr>) = (w_stored h r w)\<lparr> inject := f \<rparr>"
  by (simp add: w_stored_def w_started_inject)

lemmas w_inject = w_entered_inject w_reserved_inject w_indexed_inject w_dir_inject
  w_stdout_inject w_stderr_inject w_encoded_inject w_created_inject w_started_inject
  w_stored_inject

lemma forwardRun_inject:
  assumes "\<forall>c. \<not> isCompensation c \<longrightarrow> f c = inject w c"
  shows "forwardRun h r (w\<lparr> inject := f \<rparr>) =
           (case forwardRun h r w of (ret, ds, W) \<Rightarrow> (ret, ds, W\<lparr> inject := f \<rparr>))"
  by (simp add: forwardRun_def err_inject [OF assms] w_inject ds_defs called_def
      split: option.split)

subsection \<open>The record of calls, and the example worlds\<close>

lemma exampleHelpers_simps [simp]:
  "relativeRootfsPath exampleHelpers = ''rootfs''"
  "defaultRuntime exampleHelpers = ''linux''"
  "makeSandboxName exampleHelpers (Some x) = Name x @ ''_'' @ Namespace x @ ''_'' @ Uid x"
  "getCgroupsPath exampleHelpers p i = p @ ''/'' @ i"
  "getSandboxRootDir exampleHelpers d i = d @ ''/sandboxes/'' @ i"
  "getStreamingPipes exampleHelpers d = (d @ ''/stdin'', d @ ''/stdout'', d @ ''/stderr'')"
  "specVersion exampleHelpers = ''1.0.0''"
  by (simp_all add: exampleHelpers_def)



lemma runAllDeferred_success:
  "runAllDeferred (ds_created h r w) res None W = glog_V 2 (Info_Returns (GetPodSandboxId res)) W"
  by (simp add: ds_defs)

lemma test_world_simps [simp]:
  "theID (newTestWorld p) = ''a''"
  "theRootDir exampleHelpers (newTestWorld p) = ''/test/rootfs/sandboxes/a''"
  "theStdout exampleHelpers (newTestWorld p) = ''/test/rootfs/sandboxes/a/stdout''"
  "theStderr exampleHelpers (newTestWorld p) = ''/test/rootfs/sandboxes/a/stderr''"
  "theName exampleHelpers testRequest = ''test-name_test-ns_test-uid''"
  "inject (newTestWorld p) = p"
  "containers (newTestWorld p) = Map.empty"
  "sandboxStore (newTestWorld p) = Map.empty"
  "sandboxIDIndex (newTestWorld p) = []"
  "dirs (newTestWorld p) = []"
  "calls (newTestWorld p) = []"
  "nextPid (newTestWorld p) = 100"
  "nameToKey (sandboxNameIndex (newTestWorld p)) = Map.empty"
  by (simp_all add: the_defs generateID_def newTestWorld_def testRequest_def testConfig_def
      GetConfig_def GetMetadata_def NewRegistrar_def)

lemma test_world_errs:
  "reserveErr exampleHelpers testRequest (newTestWorld p) = None"
  "addErr (newTestWorld p) = None"
  "mkdirErr exampleHelpers (newTestWorld p) = p (CallMkdirAll ''/test/rootfs/sandboxes/a'' 493)"
  "stdoutErr exampleHelpers (newTestWorld p)
     = p (CallOpenFifo ''/test/rootfs/sandboxes/a/stdout'' [O_RDONLY, O_CREAT, O_NONBLOCK] 448)"
  "stderrErr exampleHelpers (newTestWorld p)
     = p (CallOpenFifo ''/test/rootfs/sandboxes/a/stderr'' [O_RDONLY, O_CREAT, O_NONBLOCK] 448)"
  "marshalErr exampleHelpers testRequest (newTestWorld p)
     = p (CallMarshal (theSpec exampleHelpers testRequest (newTestWorld p)))"
  "createErr exampleHelpers testRequest (newTestWorld p)
     = p (CallCreate (theCreateOpts exampleHelpers testRequest (newTestWorld p)))"
  "startErr (newTestWorld p) = p (CallStart ''a'')"
  "storeErr exampleHelpers testRequest (newTestWorld p)
     = p (CallStoreCreate (theMeta exampleHelpers testRequest (newTestWorld p)))"
  by (simp_all add: err_defs callMkdir_def callStdout_def callStderr_def split: option.splits)

lemmas plan_defs = noFailure_def startFails_def startAndCleanupFail_def startAndCloseFail_def
  storeAndDeleteFail_def

lemma runAllDeferred_sandboxStore [simp]:
  "sandboxStore (runAllDeferred ds res err w) = sandboxStore w"
  by (induction ds arbitrary: w) (simp_all del: runDeferred.simps)


lemma final_success:
  assumes "forwardRun h r w = (Inr res, ds_created h r w, w_stored h r w)"
  shows "snd (RunPodSandbox h r w) = glog_V 2 (Info_Returns (PodSandboxId res)) (w_stored h r w)"
  using assms
  by (simp add: RunPodSandbox_forwardRun retRes_def retErr_def runAllDeferred_success
      GetPodSandboxId_def)


lemma start_fails_close_fails:
  assumes "reserveErr h r w = None" and "addErr w = None" and "mkdirErr h w = None"
      and "stdoutErr h w = None" and "stderrErr h w = None" and "marshalErr h r w = None"
      and "createErr h r w = None" and "startErr w = Some c"
      and "inject w (CallDelete (theID w)) = None"
      and "inject w (CallClose (Suc (nextHandle w))) = Some x"
      and "inject w (CallClose (nextHandle w)) = Some y"
      and "inject w (CallRemoveAll (theRootDir h w)) = None"
  shows "fst (RunPodSandbox h r w) = Inl (FailedStart (theID w) c)"
    and "newCalls w (snd (RunPodSandbox h r w)) =
           [(callMkdir h w, None), (callStdout h w, None), (callStderr h w, None),
            (CallCreate (theCreateOpts h r w), None), (CallStart (theID w), Some c),
            (CallDelete (theID w), None), (CallClose (Suc (nextHandle w)), Some x),
            (CallClose (nextHandle w), Some y), (CallRemoveAll (theRootDir h w), None)]"
    and "glog (snd (RunPodSandbox h r w)) = glog w @ infoLog h r w 2"
  using assms
  by (simp_all add: RunPodSandbox_forwardRun forwardRun_def retRes_def retErr_def ds_defs
      fw_world_defs comp_op_defs newCalls_def)

section \<open>Properties of the execution-spec generator\<close>

lemmas generator_defs = generateSandboxContainerSpec_def SetRootPath_def SetProcessArgs_def
  SetRootReadonly_def SetHostname_def SetLinuxCgroupsPath_def RemoveLinuxNamespace_def
  initSpecLinux_def generate_New_def Let_def

lemmas getter_defs = GetConfig_def GetMetadata_def GetHostname_def GetLinux_def
  GetCgroupParent_def GetSecurityContext_def GetNamespaceOptions_def GetHostNetwork_def
  GetHostPid_def GetHostIpc_def nsOptionsOf_def

text \<open>
  C4. Namespace mapping law. For every identity and config, the namespaces of the
  generated spec are the five baseline namespaces minus the network namespace when
  host-network is set, minus the PID namespace when host-pid is set and minus the IPC
  namespace when host-ipc is set, and nothing else is removed. So host-network alone
  leaves out network and keeps PID and IPC; with the three flags false, or with the
  Linux block, the security context or the namespace options absent, network, PID and
  IPC are all present.
\<close>

theorem namespace_mapping_law:
  "specNamespaces (generateSandboxContainerSpec h i c) =
     {PIDNamespace, NetworkNamespace, IPCNamespace, UTSNamespace, MountNamespace}
       - ((if GetHostNetwork (nsOptionsOf c) then {NetworkNamespace} else {})
          \<union> (if GetHostPid (nsOptionsOf c) then {PIDNamespace} else {})
          \<union> (if GetHostIpc (nsOptionsOf c) then {IPCNamespace} else {}))
   \<and> (GetHostNetwork (nsOptionsOf c) \<and> \<not> GetHostPid (nsOptionsOf c)
        \<and> \<not> GetHostIpc (nsOptionsOf c)
      \<longrightarrow> NetworkNamespace \<notin> specNamespaces (generateSandboxContainerSpec h i c)
          \<and> PIDNamespace \<in> specNamespaces (generateSandboxContainerSpec h i c)
          \<and> IPCNamespace \<in> specNamespaces (generateSandboxContainerSpec h i c))
   \<and> (\<not> GetHostNetwork (nsOptionsOf c) \<and> \<not> GetHostPid (nsOptionsOf c)
        \<and> \<not> GetHostIpc (nsOptionsOf c)
      \<longrightarrow> {NetworkNamespace, PIDNamespace, IPCNamespace}
            \<subseteq> specNamespaces (generateSandboxContainerSpec h i c))
   \<and> (GetLinux c = None \<or> GetSecurityContext (GetLinux c) = None \<or> nsOptionsOf c = None
      \<longrightarrow> {NetworkNamespace, PIDNamespace, IPCNamespace}
            \<subseteq> specNamespaces (generateSandboxContainerSpec h i c))"
  by (auto simp add: generator_defs specNamespaces_def getter_defs)

theorem namespace_mapping_law_witness:
  "GetHostNetwork (nsOptionsOf (Some hostNetworkConfig))
   \<and> \<not> GetHostPid (nsOptionsOf (Some hostNetworkConfig))
   \<and> \<not> GetHostIpc (nsOptionsOf (Some hostNetworkConfig))
   \<and> NetworkNamespace
        \<notin> specNamespaces (generateSandboxContainerSpec exampleHelpers ''test-id''
                            (Some hostNetworkConfig))
   \<and> PIDNamespace
        \<in> specNamespaces (generateSandboxContainerSpec exampleHelpers ''test-id''
                            (Some hostNetworkConfig))
   \<and> IPCNamespace
        \<in> specNamespaces (generateSandboxContainerSpec exampleHelpers ''test-id''
                            (Some hostNetworkConfig))
   \<and> GetLinux (Some (testConfig\<lparr> Linux := None \<rparr>)) = None
   \<and> {NetworkNamespace, PIDNamespace, IPCNamespace}
        \<subseteq> specNamespaces (generateSandboxContainerSpec exampleHelpers ''test-id''
                            (Some (testConfig\<lparr> Linux := None \<rparr>)))"
  using namespace_mapping_law [of exampleHelpers "''test-id''" "Some hostNetworkConfig"]
    namespace_mapping_law [of exampleHelpers "''test-id''" "Some (testConfig\<lparr> Linux := None \<rparr>)"]
  by (simp add: hostNetworkConfig_def testConfig_def getter_defs)

text \<open>
  C5. Cgroup path law. For every identity and config, when the cgroup parent of the
  config is a non-empty string, the cgroups path of the generated spec is
  \<^verbatim>\<open>getCgroupsPath\<close> of that parent and the identity; when the cgroup parent is empty
  or the Linux block is absent, the cgroups path stays unset (the empty string).
\<close>

theorem cgroup_path_law:
  "(GetCgroupParent (GetLinux c) \<noteq> []
      \<longrightarrow> specCgroupsPath (generateSandboxContainerSpec h i c)
            = getCgroupsPath h (GetCgroupParent (GetLinux c)) i)
   \<and> (GetCgroupParent (GetLinux c) = [] \<or> GetLinux c = None
      \<longrightarrow> specCgroupsPath (generateSandboxContainerSpec h i c) = [])"
  by (auto simp add: generator_defs specCgroupsPath_def getter_defs split: option.splits)

theorem cgroup_path_law_witness:
  "GetCgroupParent (GetLinux (Some testConfig)) \<noteq> []
   \<and> specCgroupsPath (generateSandboxContainerSpec exampleHelpers ''test-id'' (Some testConfig))
       = ''/test/cgroup/parent/test-id''
   \<and> GetLinux (Some (testConfig\<lparr> Linux := None \<rparr>)) = None
   \<and> specCgroupsPath (generateSandboxContainerSpec exampleHelpers ''test-id''
                        (Some (testConfig\<lparr> Linux := None \<rparr>))) = []"
proof -
  have a: "GetCgroupParent (GetLinux (Some testConfig)) = ''/test/cgroup/parent''"
    by (simp add: testConfig_def getter_defs)
  have b: "GetLinux (Some (testConfig\<lparr> Linux := None \<rparr>)) = None"
    by (simp add: getter_defs)
  show ?thesis
    using cgroup_path_law [of "Some testConfig" exampleHelpers "''test-id''"]
      cgroup_path_law [of "Some (testConfig\<lparr> Linux := None \<rparr>)" exampleHelpers "''test-id''"]
    by (simp add: a b)
qed

text \<open>
  C6. Fixed baseline. For every identity and config, the root path of the generated
  spec is \<^verbatim>\<open>relativeRootfsPath\<close>, the root is read-only, the process arguments are the
  placeholder command that holds the sandbox, and the hostname is the hostname of the
  config, whatever else the config contains.
\<close>

theorem generated_spec_baseline:
  "root_Path (spec_Root (generateSandboxContainerSpec h i c)) = relativeRootfsPath h
   \<and> root_Readonly (spec_Root (generateSandboxContainerSpec h i c)) = True
   \<and> proc_Args (spec_Process (generateSandboxContainerSpec h i c))
       = [''sh'', ''-c'', ''while true; do sleep 1000000000; done'']
   \<and> spec_Hostname (generateSandboxContainerSpec h i c) = GetHostname c"
  by (simp add: generator_defs pauseCommand_def)

subsection \<open>The generator object\<close>

lemmas exec_defs = Generator_New_def Generator_initSpec_def Generator_set_def updateObject_def
  newObject_def Generator_SetRootPath_def Generator_SetProcessArgs_def
  Generator_SetRootReadonly_def Generator_SetHostname_def Generator_SetLinuxCgroupsPath_def
  Generator_RemoveLinuxNamespace_def Generator_Spec_def

text \<open>
  The method allocates one object, leaves in it the value the orchestrator uses, and
  returns the reference to it.
\<close>

lemma generateSandboxContainerSpec_exec_eq:
  "generateSandboxContainerSpec_exec h i c st =
     (Some (nextObject st),
      st\<lparr> specObjects := (specObjects st)(nextObject st \<mapsto> generateSandboxContainerSpec h i c),
          nextObject := Suc (nextObject st) \<rparr>)"
  by (simp add: generateSandboxContainerSpec_exec_def generateSandboxContainerSpec_def exec_defs
      Let_def)

text \<open>
  C7. The generator is pure and deterministic and cannot fail. Run in any state, that is
  with any world behind the service and any spec objects already allocated, the method
  returns a reference that is not nil, to a fresh object holding the value
  \<open>generateSandboxContainerSpec\<close> of the identity and the config; it leaves the world
  (files, handles, containers, store, log, record of calls) and every other spec object
  as they were. So two invocations with equal identity and config, in whatever states,
  return equal specs, and a second invocation right after the first returns another
  reference to an equal spec. The value depends on the config only through the hostname,
  the cgroup parent and the three host-namespace flags as the nil-safe getters read
  them, so an absent config, Linux block, security context or namespace-option block
  gives the spec of the default values instead of an error.
\<close>

theorem generator_pure_total:
  "fst (generateSandboxContainerSpec_exec h i c st) = Some (nextObject st)
   \<and> specAt (generateSandboxContainerSpec_exec h i c st)
       = Some (generateSandboxContainerSpec h i c)
   \<and> specAt (generateSandboxContainerSpec_exec h i c st)
       = specAt (generateSandboxContainerSpec_exec h i c st')
   \<and> specAt (generateSandboxContainerSpec_exec h i c
               (snd (generateSandboxContainerSpec_exec h i c st)))
       = specAt (generateSandboxContainerSpec_exec h i c st)
   \<and> fst (generateSandboxContainerSpec_exec h i c
             (snd (generateSandboxContainerSpec_exec h i c st)))
       \<noteq> fst (generateSandboxContainerSpec_exec h i c st)
   \<and> service (snd (generateSandboxContainerSpec_exec h i c st)) = service st
   \<and> (\<forall>a. a \<noteq> nextObject st
        \<longrightarrow> specObjects (snd (generateSandboxContainerSpec_exec h i c st)) a = specObjects st a)
   \<and> (GetHostname c = GetHostname c'
        \<and> GetCgroupParent (GetLinux c) = GetCgroupParent (GetLinux c')
        \<and> GetHostNetwork (nsOptionsOf c) = GetHostNetwork (nsOptionsOf c')
        \<and> GetHostPid (nsOptionsOf c) = GetHostPid (nsOptionsOf c')
        \<and> GetHostIpc (nsOptionsOf c) = GetHostIpc (nsOptionsOf c')
      \<longrightarrow> specAt (generateSandboxContainerSpec_exec h i c st)
            = specAt (generateSandboxContainerSpec_exec h i c' st'))
   \<and> specAt (generateSandboxContainerSpec_exec h i None st)
       = specAt (generateSandboxContainerSpec_exec h i
                   (Some (cfg\<lparr> Hostname := [], Linux := None \<rparr>)) st)
   \<and> specAt (generateSandboxContainerSpec_exec h i (Some (cfg\<lparr> Linux := None \<rparr>)) st)
       = specAt (generateSandboxContainerSpec_exec h i
           (Some (cfg\<lparr> Linux := Some \<lparr> CgroupParent = [], SecurityContext = None \<rparr> \<rparr>)) st)
   \<and> specAt (generateSandboxContainerSpec_exec h i (Some (cfg\<lparr> Linux := None \<rparr>)) st)
       = specAt (generateSandboxContainerSpec_exec h i
           (Some (cfg\<lparr> Linux := Some \<lparr> CgroupParent = [],
                    SecurityContext = Some \<lparr> NamespaceOptions = None \<rparr> \<rparr> \<rparr>)) st)
   \<and> specAt (generateSandboxContainerSpec_exec h i (Some (cfg\<lparr> Linux := None \<rparr>)) st)
       = specAt (generateSandboxContainerSpec_exec h i
           (Some (cfg\<lparr> Linux := Some \<lparr> CgroupParent = [],
                    SecurityContext = Some \<lparr> NamespaceOptions =
                      Some \<lparr> HostNetwork = False, HostPid = False, HostIpc = False \<rparr> \<rparr> \<rparr> \<rparr>)) st)"
  by (simp add: generateSandboxContainerSpec_exec_eq specAt_def generateSandboxContainerSpec_def
      Let_def getter_defs)

theorem generator_pure_total_witness:
  "fst (generateSandboxContainerSpec_exec exampleHelpers ''test-id'' (Some testConfig)
          busyExecState) = Some 1
   \<and> specAt (generateSandboxContainerSpec_exec exampleHelpers ''test-id'' (Some testConfig)
               busyExecState)
       = specAt (generateSandboxContainerSpec_exec exampleHelpers ''test-id'' (Some testConfig)
                   freshExecState)
   \<and> service (snd (generateSandboxContainerSpec_exec exampleHelpers ''test-id''
                      (Some testConfig) busyExecState)) = newTestWorld startAndCleanupFail
   \<and> specObjects (snd (generateSandboxContainerSpec_exec exampleHelpers ''test-id''
                          (Some testConfig) busyExecState)) 0 = Some emptySpec
   \<and> GetHostname (Some (testConfig\<lparr> Linux := None \<rparr>)) = GetHostname (Some hostDefaultsConfig)
   \<and> Some (testConfig\<lparr> Linux := None \<rparr>) \<noteq> Some hostDefaultsConfig
   \<and> specAt (generateSandboxContainerSpec_exec exampleHelpers ''test-id''
               (Some (testConfig\<lparr> Linux := None \<rparr>)) busyExecState)
       = specAt (generateSandboxContainerSpec_exec exampleHelpers ''test-id''
                   (Some hostDefaultsConfig) freshExecState)"
proof -
  let ?run = "generateSandboxContainerSpec_exec exampleHelpers ''test-id''"
  let ?c1 = "Some (testConfig\<lparr> Linux := None \<rparr>)"
  let ?c2 = "Some hostDefaultsConfig"
  have busy: "nextObject busyExecState = 1" "specObjects busyExecState 0 = Some emptySpec"
      "service busyExecState = newTestWorld startAndCleanupFail"
    by (simp_all add: busyExecState_def)
  have same: "GetHostname ?c1 = GetHostname ?c2"
      "GetCgroupParent (GetLinux ?c1) = GetCgroupParent (GetLinux ?c2)"
      "GetHostNetwork (nsOptionsOf ?c1) = GetHostNetwork (nsOptionsOf ?c2)"
      "GetHostPid (nsOptionsOf ?c1) = GetHostPid (nsOptionsOf ?c2)"
      "GetHostIpc (nsOptionsOf ?c1) = GetHostIpc (nsOptionsOf ?c2)"
    by (simp_all add: hostDefaultsConfig_def getter_defs)
  have diff: "?c1 \<noteq> ?c2"
    by (simp add: hostDefaultsConfig_def testConfig_def)
  note A = generator_pure_total
      [of exampleHelpers "''test-id''" "Some testConfig" busyExecState freshExecState
          "Some testConfig" testConfig]
  note B = generator_pure_total
      [of exampleHelpers "''test-id''" ?c1 busyExecState freshExecState ?c2 testConfig]
  from A have ref: "fst (?run (Some testConfig) busyExecState) = Some 1"
    by (simp add: busy)
  from A have det: "specAt (?run (Some testConfig) busyExecState)
      = specAt (?run (Some testConfig) freshExecState)"
    by blast
  from A have world: "service (snd (?run (Some testConfig) busyExecState))
      = newTestWorld startAndCleanupFail"
    by (simp add: busy)
  from A have "\<forall>a. a \<noteq> nextObject busyExecState
      \<longrightarrow> specObjects (snd (?run (Some testConfig) busyExecState)) a = specObjects busyExecState a"
    by blast
  then have frame: "specObjects (snd (?run (Some testConfig) busyExecState)) 0 = Some emptySpec"
    by (simp add: busy)
  from B same have dflt: "specAt (?run ?c1 busyExecState) = specAt (?run ?c2 freshExecState)"
    by blast
  show ?thesis
    using ref det world frame same(1) diff dflt by blast
qed

section \<open>Properties of the orchestrator\<close>

lemmas final_defs = RunPodSandbox_forwardRun retRes_def retErr_def ds_defs runDeferred_fields
  fw_world_defs ReleaseByName_def TruncIndex_Delete_def below_def

lemma start_fails_leftover:
  assumes "reserveErr h r w = None" and "addErr w = None" and "mkdirErr h w = None"
      and "stdoutErr h w = None" and "stderrErr h w = None" and "marshalErr h r w = None"
      and "createErr h r w = None" and "startErr w = Some c"
      and "inject w (CallDelete (theID w)) = Some x"
      and "inject w (CallRemoveAll (theRootDir h w)) = Some y"
  shows "fst (RunPodSandbox h r w) = Inl (FailedStart (theID w) c)"
    and "containers (snd (RunPodSandbox h r w)) (theID w)
           = Some \<lparr> c_Pid = nextPid w, c_Status = CREATED \<rparr>"
    and "theRootDir h w \<in> set (dirs (snd (RunPodSandbox h r w)))"
  using assms
  by (simp_all add: final_defs forwardRun_def del: runDeferred.simps)

lemma add_fails_leftover:
  assumes "reserveErr h r w = None" and "addErr w = Some c"
  shows "fst (RunPodSandbox h r w) = Inl (FailedInsertID (theID w) c)"
    and "sandboxIDIndex (snd (RunPodSandbox h r w)) = sandboxIDIndex w"
  using assms
  by (simp_all add: final_defs forwardRun_def del: runDeferred.simps)

text \<open>
  C1 (amended). For every config and every forward step of \<^verbatim>\<open>RunPodSandbox\<close> that
  fails after the name has been reserved (ID-index add, directory creation, pipe
  opening, spec marshalling, remote create, remote start, and also the final store
  write), the call returns no response and the error of that step, and afterwards the
  reserved name is released and no metadata record has been written. The other
  compensations undo what they can: the identity is absent from the ID index unless it
  was already there before the call; the sandbox root directory is removed provided the
  compensating \<^verbatim>\<open>RemoveAll\<close> succeeds (and the directory was created by the call or did
  not exist before); the container under the identity is deleted provided the
  compensating \<^verbatim>\<open>Delete\<close> succeeds (and no container of that identity existed
  before). A compensation that fails is only logged, and the directory or the container
  then stays.
\<close>

theorem failed_run_unwinds:
  assumes free: "nameToKey (sandboxNameIndex w) (theName h r) = None"
      and ff: "firstForwardFailure h r w = Some e"
  shows "fst (RunPodSandbox h r w) = Inl e
    \<and> nameToKey (sandboxNameIndex (snd (RunPodSandbox h r w))) (theName h r) = None
    \<and> (theID w \<notin> set (sandboxIDIndex w)
         \<longrightarrow> theID w \<notin> set (sandboxIDIndex (snd (RunPodSandbox h r w))))
    \<and> (inject w (CallRemoveAll (theRootDir h w)) = None
         \<and> (theRootDir h w \<notin> set (dirs w) \<or> addErr w = None \<and> mkdirErr h w = None)
         \<longrightarrow> theRootDir h w \<notin> set (dirs (snd (RunPodSandbox h r w))))
    \<and> (inject w (CallDelete (theID w)) = None \<and> containers w (theID w) = None
         \<longrightarrow> containers (snd (RunPodSandbox h r w)) (theID w) = None)
    \<and> sandboxStore (snd (RunPodSandbox h r w)) = sandboxStore w"
proof -
  have re: "reserveErr h r w = None"
    using free by (simp add: reserveErr_def)
  show ?thesis
  proof (cases h r w rule: forwardRun_cases)
    case (reserve c)
    then show ?thesis using re by simp
  next
    case (add c)
    then show ?thesis
      using ff re by (simp add: final_defs del: runDeferred.simps)
  next
    case (mkdir c)
    then show ?thesis
      using ff re by (simp add: final_defs addErr_None del: runDeferred.simps)
  next
    case (stdout c)
    then show ?thesis
      using ff re by (simp add: final_defs del: runDeferred.simps)
  next
    case (stderr c)
    then show ?thesis
      using ff re by (simp add: final_defs del: runDeferred.simps)
  next
    case (marshal c)
    then show ?thesis
      using ff re by (simp add: final_defs del: runDeferred.simps)
  next
    case (create c)
    then show ?thesis
      using ff re by (simp add: final_defs del: runDeferred.simps)
  next
    case (start c)
    then show ?thesis
      using ff re by (simp add: final_defs del: runDeferred.simps)
  next
    case (store c)
    then show ?thesis
      using ff re by (simp add: final_defs del: runDeferred.simps)
  next
    case success
    then show ?thesis using ff by simp
  qed
qed

theorem failed_run_unwinds_witness:
  "fst (RunPodSandbox exampleHelpers testRequest (newTestWorld startFails))
     = Inl (FailedStart ''a'' (Failure ''start''))
   \<and> nameToKey (sandboxNameIndex
        (snd (RunPodSandbox exampleHelpers testRequest (newTestWorld startFails))))
        ''test-name_test-ns_test-uid'' = None
   \<and> ''a'' \<notin> set (sandboxIDIndex
        (snd (RunPodSandbox exampleHelpers testRequest (newTestWorld startFails))))
   \<and> ''/test/rootfs/sandboxes/a'' \<notin> set (dirs
        (snd (RunPodSandbox exampleHelpers testRequest (newTestWorld startFails))))
   \<and> containers (snd (RunPodSandbox exampleHelpers testRequest (newTestWorld startFails)))
        ''a'' = None"
proof -
  have ff: "firstForwardFailure exampleHelpers testRequest (newTestWorld startFails)
      = Some (FailedStart ''a'' (Failure ''start''))"
    by (simp add: firstForwardFailure_def test_world_errs plan_defs)
  have free: "nameToKey (sandboxNameIndex (newTestWorld startFails))
      (theName exampleHelpers testRequest) = None"
    by simp
  show ?thesis
    using failed_run_unwinds [OF free ff]
    by (simp add: plan_defs)
qed

text \<open>
  Without the provisos the statement fails. When the start fails and the compensating
  \<^verbatim>\<open>Delete\<close> and \<^verbatim>\<open>RemoveAll\<close> fail too, the container and the directory are still
  there after the call; when the generated identity is already indexed, the add fails
  and the identity is still indexed after the call.
\<close>

theorem failed_run_leftovers_counterexample:
  "fst (RunPodSandbox exampleHelpers testRequest (newTestWorld startAndCleanupFail))
     = Inl (FailedStart ''a'' (Failure ''start''))
   \<and> containers
        (snd (RunPodSandbox exampleHelpers testRequest (newTestWorld startAndCleanupFail))) ''a''
       = Some \<lparr> c_Pid = 100, c_Status = CREATED \<rparr>
   \<and> ''/test/rootfs/sandboxes/a'' \<in> set (dirs
        (snd (RunPodSandbox exampleHelpers testRequest (newTestWorld startAndCleanupFail))))
   \<and> fst (RunPodSandbox exampleHelpers testRequest identityTakenWorld)
       = Inl (FailedInsertID ''a'' AlreadyExists)
   \<and> ''a'' \<in> set (sandboxIDIndex
        (snd (RunPodSandbox exampleHelpers testRequest identityTakenWorld)))"
proof -
  have taken: "reserveErr exampleHelpers testRequest identityTakenWorld = None"
      "addErr identityTakenWorld = Some AlreadyExists" "theID identityTakenWorld = ''a''"
      "sandboxIDIndex identityTakenWorld = [''a'']"
    by (simp_all add: identityTakenWorld_def reserveErr_def addErr_def the_defs generateID_def
        newTestWorld_def NewRegistrar_def)
  show ?thesis
    using start_fails_leftover [of exampleHelpers testRequest "newTestWorld startAndCleanupFail"
        "Failure ''start''" "Failure ''delete''" "Failure ''remove''"]
      add_fails_leftover [OF taken(1,2)]
    by (simp add: test_world_errs plan_defs taken)
qed

text \<open>
  C2. For every config whose derived name is already reserved in the registrar,
  \<^verbatim>\<open>RunPodSandbox\<close> fails at the reservation and returns that error; the ID index, the
  file system, the open handles, the execution service and the store are as before, no
  call on the OS, the execution service or the store has been made, and the registrar
  still holds the other caller's reservation.
\<close>

theorem reserved_name_fails_fast:
  assumes "nameToKey (sandboxNameIndex w) (theName h r) = Some k"
  shows "fst (RunPodSandbox h r w) = Inl (FailedReserveName (theName h r) AlreadyExists)
    \<and> sandboxNameIndex (snd (RunPodSandbox h r w)) = sandboxNameIndex w
    \<and> nameToKey (sandboxNameIndex (snd (RunPodSandbox h r w))) (theName h r) = Some k
    \<and> sandboxIDIndex (snd (RunPodSandbox h r w)) = sandboxIDIndex w
    \<and> dirs (snd (RunPodSandbox h r w)) = dirs w
    \<and> fifos (snd (RunPodSandbox h r w)) = fifos w
    \<and> openFiles (snd (RunPodSandbox h r w)) = openFiles w
    \<and> containers (snd (RunPodSandbox h r w)) = containers w
    \<and> sandboxStore (snd (RunPodSandbox h r w)) = sandboxStore w
    \<and> calls (snd (RunPodSandbox h r w)) = calls w"
proof -
  have "reserveErr h r w = Some AlreadyExists"
    using assms by (simp add: reserveErr_def)
  then show ?thesis
    using assms by (simp add: final_defs forwardRun_def)
qed

theorem reserved_name_fails_fast_witness:
  "nameToKey (sandboxNameIndex nameTakenWorld) (theName exampleHelpers testRequest) = Some ''other''
   \<and> fst (RunPodSandbox exampleHelpers testRequest nameTakenWorld)
       = Inl (FailedReserveName ''test-name_test-ns_test-uid'' AlreadyExists)
   \<and> nameToKey (sandboxNameIndex (snd (RunPodSandbox exampleHelpers testRequest nameTakenWorld)))
       ''test-name_test-ns_test-uid'' = Some ''other''
   \<and> sandboxIDIndex (snd (RunPodSandbox exampleHelpers testRequest nameTakenWorld)) = []
   \<and> dirs (snd (RunPodSandbox exampleHelpers testRequest nameTakenWorld)) = []
   \<and> calls (snd (RunPodSandbox exampleHelpers testRequest nameTakenWorld)) = []"
proof -
  have taken: "nameToKey (sandboxNameIndex nameTakenWorld) (theName exampleHelpers testRequest)
      = Some ''other''"
    by (simp add: nameTakenWorld_def)
  have start: "sandboxIDIndex nameTakenWorld = []" "dirs nameTakenWorld = []"
      "calls nameTakenWorld = []"
    by (simp_all add: nameTakenWorld_def)
  show ?thesis
    using reserved_name_fails_fast [OF taken] taken start by simp
qed





text \<open>
  C8 (amended). For every call of \<^verbatim>\<open>RunPodSandbox\<close> the returned error is the error
  of the first forward step that fails, wrapped with its stage; when no forward step
  fails the call returns the identity. What the compensating calls (\<^verbatim>\<open>RemoveAll\<close>,
  \<^verbatim>\<open>Close\<close>, \<^verbatim>\<open>Delete\<close>) return has no influence on the returned value, on the
  sequence of calls made (so no compensation is skipped because an earlier one failed),
  or on the final registrar and ID index. A failing \<^verbatim>\<open>RemoveAll\<close> or \<^verbatim>\<open>Delete\<close> adds
  one error line to the log; what closing a pipe or deleting the identity from the
  index returns is discarded and leaves no line in the log.
\<close>

theorem first_failure_is_returned:
  "fst (RunPodSandbox h r w) =
     (case firstForwardFailure h r w of
        None \<Rightarrow> Inr \<lparr> PodSandboxId = theID w \<rparr>
      | Some e \<Rightarrow> Inl e)
   \<and> ((\<forall>c. \<not> isCompensation c \<longrightarrow> f c = inject w c)
      \<longrightarrow> fst (RunPodSandbox h r (w\<lparr> inject := f \<rparr>)) = fst (RunPodSandbox h r w)
        \<and> map fst (calls (snd (RunPodSandbox h r (w\<lparr> inject := f \<rparr>))))
            = map fst (calls (snd (RunPodSandbox h r w)))
        \<and> sandboxNameIndex (snd (RunPodSandbox h r (w\<lparr> inject := f \<rparr>)))
            = sandboxNameIndex (snd (RunPodSandbox h r w))
        \<and> sandboxIDIndex (snd (RunPodSandbox h r (w\<lparr> inject := f \<rparr>)))
            = sandboxIDIndex (snd (RunPodSandbox h r w)))
   \<and> glog (runDeferred (DeferRemoveRootDir p) res (Some e') W)
       = glog W @ (case fst (os_RemoveAll p W) of
                     Some x \<Rightarrow> [Error_RemoveRootDir p x] | None \<Rightarrow> [])
   \<and> glog (runDeferred (DeferDeleteContainer i) res (Some e') W)
       = glog W @ (case fst (containerService_Delete i W) of
                     Some x \<Rightarrow> [Error_DeleteContainer i x] | None \<Rightarrow> [])
   \<and> glog (runDeferred (DeferClose fd) res (Some e') W) = glog W
   \<and> glog (runDeferred (DeferDeleteID i) res (Some e') W) = glog W
   \<and> glog (runDeferred (DeferReleaseName n) res (Some e') W) = glog W"
proof -
  have indep: "fst (RunPodSandbox h r (w\<lparr> inject := f \<rparr>)) = fst (RunPodSandbox h r w)
        \<and> map fst (calls (snd (RunPodSandbox h r (w\<lparr> inject := f \<rparr>))))
            = map fst (calls (snd (RunPodSandbox h r w)))
        \<and> sandboxNameIndex (snd (RunPodSandbox h r (w\<lparr> inject := f \<rparr>)))
            = sandboxNameIndex (snd (RunPodSandbox h r w))
        \<and> sandboxIDIndex (snd (RunPodSandbox h r (w\<lparr> inject := f \<rparr>)))
            = sandboxIDIndex (snd (RunPodSandbox h r w))"
    if agree: "\<forall>c. \<not> isCompensation c \<longrightarrow> f c = inject w c"
  proof -
    obtain ret ds W0 where fr: "forwardRun h r w = (ret, ds, W0)"
      by (cases "forwardRun h r w") auto
    have fr': "forwardRun h r (w\<lparr> inject := f \<rparr>) = (ret, ds, W0\<lparr> inject := f \<rparr>)"
      using forwardRun_inject [OF agree, of h r] fr by simp
    show ?thesis
      using runAllDeferred_agree [of "W0\<lparr> inject := f \<rparr>" W0 ds "retRes ret" "retErr ret"]
      by (simp add: RunPodSandbox_forwardRun fr fr')
  qed
  have logs: "glog (runDeferred (DeferRemoveRootDir p) res (Some e') W)
       = glog W @ (case fst (os_RemoveAll p W) of
                     Some x \<Rightarrow> [Error_RemoveRootDir p x] | None \<Rightarrow> [])"
     "glog (runDeferred (DeferDeleteContainer i) res (Some e') W)
       = glog W @ (case fst (containerService_Delete i W) of
                     Some x \<Rightarrow> [Error_DeleteContainer i x] | None \<Rightarrow> [])"
     "glog (runDeferred (DeferClose fd) res (Some e') W) = glog W"
     "glog (runDeferred (DeferDeleteID i) res (Some e') W) = glog W"
     "glog (runDeferred (DeferReleaseName n) res (Some e') W) = glog W"
    by (simp_all add: comp_op_defs split: option.splits)
  show ?thesis
    using indep logs by (simp add: fst_RunPodSandbox del: runDeferred.simps)
qed

theorem first_failure_is_returned_witness:
  "fst (RunPodSandbox exampleHelpers testRequest (newTestWorld startFails))
     = Inl (FailedStart ''a'' (Failure ''start''))
   \<and> fst (RunPodSandbox exampleHelpers testRequest
             ((newTestWorld startFails)\<lparr> inject := startAndCleanupFail \<rparr>))
       = Inl (FailedStart ''a'' (Failure ''start''))
   \<and> map fst (calls (snd (RunPodSandbox exampleHelpers testRequest
                             ((newTestWorld startFails)\<lparr> inject := startAndCleanupFail \<rparr>))))
       = map fst (calls (snd (RunPodSandbox exampleHelpers testRequest
                                (newTestWorld startFails))))"
proof -
  have agree: "\<forall>c. \<not> isCompensation c
      \<longrightarrow> startAndCleanupFail c = inject (newTestWorld startFails) c"
  proof (intro allI impI)
    fix c
    assume "\<not> isCompensation c"
    then show "startAndCleanupFail c = inject (newTestWorld startFails) c"
      by (cases c) (simp_all add: plan_defs)
  qed
  have ff: "firstForwardFailure exampleHelpers testRequest (newTestWorld startFails)
      = Some (FailedStart ''a'' (Failure ''start''))"
    by (simp add: firstForwardFailure_def test_world_errs plan_defs)
  show ?thesis
    using first_failure_is_returned
      [of exampleHelpers testRequest "newTestWorld startFails" startAndCleanupFail]
      agree ff
    by simp
qed

text \<open>
  Not every failing compensation is logged. When the start fails and closing the two
  pipes fails, both \<^verbatim>\<open>Close\<close> calls are on record with their error and the log is
  empty.
\<close>

theorem close_failure_not_logged_counterexample:
  "fst (RunPodSandbox exampleHelpers testRequest (newTestWorld startAndCloseFail))
     = Inl (FailedStart ''a'' (Failure ''start''))
   \<and> (CallClose 4, Some (Failure ''close''))
       \<in> set (newCalls (newTestWorld startAndCloseFail)
                 (snd (RunPodSandbox exampleHelpers testRequest (newTestWorld startAndCloseFail))))
   \<and> (CallClose 3, Some (Failure ''close''))
       \<in> set (newCalls (newTestWorld startAndCloseFail)
                 (snd (RunPodSandbox exampleHelpers testRequest (newTestWorld startAndCloseFail))))
   \<and> glog (snd (RunPodSandbox exampleHelpers testRequest (newTestWorld startAndCloseFail))) = []"
proof -
  have start: "nextHandle (newTestWorld startAndCloseFail) = 3"
      "glog (newTestWorld startAndCloseFail) = []" "verbosity (newTestWorld startAndCloseFail) = 0"
    by (simp_all add: newTestWorld_def)
  show ?thesis
    using start_fails_close_fails [of exampleHelpers testRequest "newTestWorld startAndCloseFail"
        "Failure ''start''" "Failure ''close''" "Failure ''close''"]
    by (simp add: test_world_errs plan_defs start infoLog_def eval_nat_numeral)
qed

lemmas success_defs = fw_world_defs glog_V_alt newCalls_def theMeta_def theCreateOpts_def
  theName_def theRootDir_def callMkdir_def

text \<open>
  C9. For every successful call of \<^verbatim>\<open>RunPodSandbox\<close> the identity generated at its
  start is the key everywhere: it is the value the derived name is reserved to in the
  registrar, it is in the ID index, the sandbox root directory created is the one
  derived from it, the stored record is filed under it and carries it as its ID, the
  create and start requests sent to the execution service carry it, and it is the
  \<^verbatim>\<open>PodSandboxId\<close> returned to the caller.
\<close>

theorem one_identity_everywhere:
  assumes "fst (RunPodSandbox h r w) = Inr res"
  shows "fst (generateID w) = theID w
    \<and> PodSandboxId res = theID w
    \<and> nameToKey (sandboxNameIndex (snd (RunPodSandbox h r w)))
         (makeSandboxName h (GetMetadata (GetConfig r))) = Some (theID w)
    \<and> theID w \<in> set (sandboxIDIndex (snd (RunPodSandbox h r w)))
    \<and> getSandboxRootDir h (rootDir w) (theID w) \<in> set (dirs (snd (RunPodSandbox h r w)))
    \<and> sandboxStore (snd (RunPodSandbox h r w)) (theID w) = Some (theMeta h r w)
    \<and> sm_ID (theMeta h r w) = theID w
    \<and> newCalls w (snd (RunPodSandbox h r w)) =
         [(CallMkdirAll (getSandboxRootDir h (rootDir w) (theID w)) 493, None),
          (callStdout h w, None), (callStderr h w, None),
          (CallCreate (theCreateOpts h r w), None), (CallStart (theID w), None),
          (CallStoreCreate (theMeta h r w), None)]
    \<and> cr_ID (theCreateOpts h r w) = theID w"
proof (cases h r w rule: forwardRun_cases)
  case success
  have res: "res = \<lparr> PodSandboxId = theID w \<rparr>"
    using assms success(10) by (simp add: fst_RunPodSandbox)
  show ?thesis
    using final_success [OF success(11)] res
    by (simp add: success_defs theID_def)
qed (use assms in \<open>simp_all add: fst_RunPodSandbox\<close>)

theorem one_identity_everywhere_witness:
  "fst (RunPodSandbox exampleHelpers testRequest (newTestWorld noFailure))
     = Inr \<lparr> PodSandboxId = ''a'' \<rparr>
   \<and> nameToKey (sandboxNameIndex
        (snd (RunPodSandbox exampleHelpers testRequest (newTestWorld noFailure))))
        ''test-name_test-ns_test-uid'' = Some ''a''
   \<and> ''a'' \<in> set (sandboxIDIndex
        (snd (RunPodSandbox exampleHelpers testRequest (newTestWorld noFailure))))
   \<and> ''/test/rootfs/sandboxes/a'' \<in> set (dirs
        (snd (RunPodSandbox exampleHelpers testRequest (newTestWorld noFailure))))
   \<and> sm_ID (the (sandboxStore
        (snd (RunPodSandbox exampleHelpers testRequest (newTestWorld noFailure))) ''a'')) = ''a''"
proof -
  have run: "fst (RunPodSandbox exampleHelpers testRequest (newTestWorld noFailure))
      = Inr \<lparr> PodSandboxId = ''a'' \<rparr>"
    by (simp add: fst_RunPodSandbox firstForwardFailure_def test_world_errs plan_defs)
  have name: "makeSandboxName exampleHelpers (GetMetadata (GetConfig testRequest))
      = ''test-name_test-ns_test-uid''"
    using test_world_simps(5) by (simp add: theName_def)
  have dir: "getSandboxRootDir exampleHelpers (rootDir (newTestWorld noFailure)) ''a''
      = ''/test/rootfs/sandboxes/a''"
    by (simp add: newTestWorld_def)
  show ?thesis
    using one_identity_everywhere [OF run] run name dir
    by simp
qed

text \<open>
  C10. On every successful call of \<^verbatim>\<open>RunPodSandbox\<close> no compensation runs: the derived
  name stays reserved to the identity, the identity stays in the ID index, the sandbox
  root directory and its two pipes exist and nothing that existed before is removed,
  the two handles the call opened are still open, the container is there and running,
  none of the calls made is a \<^verbatim>\<open>RemoveAll\<close>, a \<^verbatim>\<open>Close\<close> or a \<^verbatim>\<open>Delete\<close>, and the log
  holds no error line. Every deferred closure other than the one that logs the returned
  identity leaves the world as it is when the function returns without error.
\<close>

theorem success_runs_no_compensation:
  assumes "fst (RunPodSandbox h r w) = Inr res"
  shows "nameToKey (sandboxNameIndex (snd (RunPodSandbox h r w))) (theName h r) = Some (theID w)
    \<and> theID w \<in> set (sandboxIDIndex (snd (RunPodSandbox h r w)))
    \<and> theRootDir h w \<in> set (dirs (snd (RunPodSandbox h r w)))
    \<and> theStdout h w \<in> set (fifos (snd (RunPodSandbox h r w)))
    \<and> theStderr h w \<in> set (fifos (snd (RunPodSandbox h r w)))
    \<and> set (dirs w) \<subseteq> set (dirs (snd (RunPodSandbox h r w)))
    \<and> set (fifos w) \<subseteq> set (fifos (snd (RunPodSandbox h r w)))
    \<and> openFiles (snd (RunPodSandbox h r w)) =
         (Suc (nextHandle w), theStderr h w) # (nextHandle w, theStdout h w) # openFiles w
    \<and> containers (snd (RunPodSandbox h r w)) (theID w)
         = Some \<lparr> c_Pid = nextPid w, c_Status = RUNNING \<rparr>
    \<and> (\<forall>c\<in>set (newCalls w (snd (RunPodSandbox h r w))). \<not> isCompensation (fst c))
    \<and> glog (snd (RunPodSandbox h r w)) =
         glog w @ infoLog h r w 2 @ (if 2 \<le> verbosity w then [Info_Returns (theID w)] else [])
    \<and> (\<forall>d W. d \<noteq> DeferLogReturn \<longrightarrow> runDeferred d (Some res) None W = W)"
proof (cases h r w rule: forwardRun_cases)
  case success
  have res: "res = \<lparr> PodSandboxId = theID w \<rparr>"
    using assms success(10) by (simp add: fst_RunPodSandbox)
  have guarded: "runDeferred d (Some res) None W = W" if "d \<noteq> DeferLogReturn" for d W
    using that by (cases d) simp_all
  show ?thesis
    using final_success [OF success(11)] res guarded
    by (auto simp add: fw_world_defs glog_V_alt newCalls_def callMkdir_def callStdout_def
        callStderr_def simp del: runDeferred.simps runDeferred_success)
qed (use assms in \<open>simp_all add: fst_RunPodSandbox\<close>)

theorem success_runs_no_compensation_witness:
  "fst (RunPodSandbox exampleHelpers testRequest (newTestWorld noFailure))
     = Inr \<lparr> PodSandboxId = ''a'' \<rparr>
   \<and> openFiles (snd (RunPodSandbox exampleHelpers testRequest (newTestWorld noFailure)))
       = [(4, ''/test/rootfs/sandboxes/a/stderr''), (3, ''/test/rootfs/sandboxes/a/stdout'')]
   \<and> containers (snd (RunPodSandbox exampleHelpers testRequest (newTestWorld noFailure))) ''a''
       = Some \<lparr> c_Pid = 100, c_Status = RUNNING \<rparr>
   \<and> ''/test/rootfs/sandboxes/a/stdout''
        \<in> set (fifos (snd (RunPodSandbox exampleHelpers testRequest (newTestWorld noFailure))))
   \<and> glog (snd (RunPodSandbox exampleHelpers testRequest (newTestWorld noFailure))) = []"
proof -
  have run: "fst (RunPodSandbox exampleHelpers testRequest (newTestWorld noFailure))
      = Inr \<lparr> PodSandboxId = ''a'' \<rparr>"
    by (simp add: fst_RunPodSandbox firstForwardFailure_def test_world_errs plan_defs)
  have start: "openFiles (newTestWorld noFailure) = []" "nextHandle (newTestWorld noFailure) = 3"
      "glog (newTestWorld noFailure) = []" "verbosity (newTestWorld noFailure) = 0"
    by (simp_all add: newTestWorld_def)
  show ?thesis
    using success_runs_no_compensation [OF run] run start
    by (simp add: infoLog_def eval_nat_numeral)
qed

end
